theory Spec2Isabelle
  imports Complex_Main
begin

section \<open>JavaScript values as the page script sees them\<close>

text \<open>
  The script \<^verbatim>\<open>script.js\<close> handles the values that \<^verbatim>\<open>res.json()\<close> decodes (JSON
  documents), \<^verbatim>\<open>undefined\<close>, which a read of a missing property gives, and the built-in
  functions and objects of the runtime, which a read of an inherited property gives
  (\<^verbatim>\<open>({}).constructor\<close> is the function \<^verbatim>\<open>Object\<close>).

  A string is a sequence of UTF-16 code units. A code unit is kept as a natural number
  (below 65536 in the browser; nothing here depends on the bound). String literals of the
  source are written \<open>str ''...''\<close>.

  A number is an IEEE double: a finite value (kept as the real number it denotes, with
  \<open>-0\<close> and \<open>0\<close> identified, which no operation of the script tells apart), an infinity
  (which \<^verbatim>\<open>JSON.parse\<close> gives for \<^verbatim>\<open>1e999\<close>) or NaN.

  An object is the list of its own properties in the engine's property order, with
  distinct keys; a decoded property is never a function. A built-in function or object is
  known by a number only: what it holds and does is the runtime's business.
\<close>

type_synonym jsstring = "nat list"

abbreviation str :: "string \<Rightarrow> jsstring" where
  "str s \<equiv> map of_char s"

datatype jsnum = Finite real | PosInfinity | NegInfinity | NaN

datatype jsval =
    JUndefined
  | JNull
  | JBool bool
  | JNum jsnum
  | JStr jsstring
  | JArr "jsval list"
  | JObj "(jsstring \<times> jsval) list"
  | JBuiltin nat

text \<open>An exception: a \<^verbatim>\<open>TypeError\<close> thrown by the engine, or an \<^verbatim>\<open>Error\<close> with its message.\<close>

datatype exn = TypeError | Error jsstring

text \<open>
  What the script uses of the JavaScript runtime without containing it. They are
  parameters of the model:
  \<^item> the conversions between numbers and strings, Unicode lower-casing and the message
    text of a \<^verbatim>\<open>TypeError\<close>;
  \<^item> \<open>inherited h v k\<close>, the read of \<^verbatim>\<open>v[k]\<close> when \<open>k\<close> is not an own property of the
    decoded value \<open>v\<close>: the member of that name on the prototype chain of \<open>v\<close>
    (\<^verbatim>\<open>Object.prototype\<close>, \<^verbatim>\<open>Array.prototype\<close>, \<^verbatim>\<open>String.prototype\<close>, ...),
    \<^verbatim>\<open>undefined\<close> when there is none, or the exception its getter throws;
  \<^item> for a built-in function or object \<open>b\<close>: the read of a property, whether
    \<^verbatim>\<open>typeof\<close> calls it an object, its conversions to a string and to a number, the
    elements its \<^verbatim>\<open>forEach\<close> visits, the results of its \<^verbatim>\<open>toLowerCase()\<close> and
    \<^verbatim>\<open>split(".")\<close>, and its \<^verbatim>\<open>JSON.stringify\<close> text; each may throw instead.
\<close>

record host =
  number_to_string :: "jsnum \<Rightarrow> jsstring"
  string_to_number :: "jsstring \<Rightarrow> jsnum"
  to_lower_case :: "jsstring \<Rightarrow> jsstring"
  type_error_message :: jsstring
  inherited :: "jsval \<Rightarrow> jsstring \<Rightarrow> exn + jsval"
  builtin_get :: "nat \<Rightarrow> jsstring \<Rightarrow> exn + jsval"
  builtin_is_object :: "nat \<Rightarrow> bool"
  builtin_to_string :: "nat \<Rightarrow> exn + jsstring"
  builtin_to_number :: "nat \<Rightarrow> exn + jsnum"
  builtin_for_each :: "nat \<Rightarrow> exn + jsval list"
  builtin_to_lower_case :: "nat \<Rightarrow> exn + jsstring"
  builtin_split :: "nat \<Rightarrow> exn + jsstring list"
  builtin_stringify :: "nat \<Rightarrow> exn + jsstring option"

text \<open>Truthiness (\<^verbatim>\<open>ToBoolean\<close>), \<^verbatim>\<open>a || b\<close> and \<^verbatim>\<open>a ?? b\<close> on values already computed.\<close>

fun truthy :: "jsval \<Rightarrow> bool" where
  "truthy JUndefined = False"
| "truthy JNull = False"
| "truthy (JBool b) = b"
| "truthy (JNum (Finite x)) = (x \<noteq> 0)"
| "truthy (JNum NaN) = False"
| "truthy (JNum _) = True"
| "truthy (JStr s) = (s \<noteq> [])"
| "truthy (JArr _) = True"
| "truthy (JObj _) = True"
| "truthy (JBuiltin _) = True"

fun nullish :: "jsval \<Rightarrow> bool" where
  "nullish JUndefined = True"
| "nullish JNull = True"
| "nullish _ = False"

definition js_or :: "jsval \<Rightarrow> jsval \<Rightarrow> jsval" where
  "js_or a b = (if truthy a then a else b)"

definition nullish_or :: "jsval \<Rightarrow> jsval \<Rightarrow> jsval" where
  "nullish_or a b = (if nullish a then b else a)"

text \<open>
  \<^verbatim>\<open>a || b\<close> where computing \<open>a\<close> or \<open>b\<close> may throw: \<open>b\<close> is computed only when \<open>a\<close> is
  falsy.
\<close>

definition or_else :: "exn + jsval \<Rightarrow> exn + jsval \<Rightarrow> exn + jsval" where
  "or_else a b = (case a of Inl e \<Rightarrow> Inl e | Inr v \<Rightarrow> if truthy v then Inr v else b)"

text \<open>\<^verbatim>\<open>typeof v === 'object' && v !== null\<close>: true of objects and arrays.\<close>

fun is_object :: "host \<Rightarrow> jsval \<Rightarrow> bool" where
  "is_object h (JArr _) = True"
| "is_object h (JObj _) = True"
| "is_object h (JBuiltin b) = builtin_is_object h b"
| "is_object h _ = False"

subsection \<open>Conversions\<close>

text \<open>The results of a list of computations, or the first exception among them.\<close>

fun all_results :: "(exn + 'a) list \<Rightarrow> exn + 'a list" where
  "all_results [] = Inr []"
| "all_results (r # rs) =
     (case r of
        Inl e \<Rightarrow> Inl e
      | Inr x \<Rightarrow> (case all_results rs of Inl e \<Rightarrow> Inl e | Inr xs \<Rightarrow> Inr (x # xs)))"

fun join :: "jsstring \<Rightarrow> jsstring list \<Rightarrow> jsstring" where
  "join sep [] = []"
| "join sep [s] = s"
| "join sep (s # ss) = s @ sep @ join sep ss"

text \<open>
  \<^verbatim>\<open>ToString\<close>, as a template literal, a string concatenation and \<^verbatim>\<open>new Error(v)\<close> apply
  it. An object is converted by \<^verbatim>\<open>ToPrimitive\<close>, which calls its \<^verbatim>\<open>toString\<close> and
  \<^verbatim>\<open>valueOf\<close>. A decoded object inherits both from \<^verbatim>\<open>Object.prototype\<close>, where
  \<^verbatim>\<open>toString\<close> gives \<^verbatim>\<open>[object Object]\<close> and \<^verbatim>\<open>valueOf\<close> gives the object itself; an own
  property of either name hides the inherited function and is not callable. So the
  conversion throws a \<^verbatim>\<open>TypeError\<close> exactly when the object has an own \<^verbatim>\<open>toString\<close>. An
  array is converted by \<^verbatim>\<open>join\<close>, which converts its elements, \<^verbatim>\<open>null\<close> and \<^verbatim>\<open>undefined\<close>
  to the empty string.
\<close>

fun to_string :: "host \<Rightarrow> jsval \<Rightarrow> exn + jsstring" where
  "to_string h JUndefined = Inr (str ''undefined'')"
| "to_string h JNull = Inr (str ''null'')"
| "to_string h (JBool b) = Inr (if b then str ''true'' else str ''false'')"
| "to_string h (JNum n) = Inr (number_to_string h n)"
| "to_string h (JStr s) = Inr s"
| "to_string h (JArr xs) =
     (case all_results (map (\<lambda>x. if nullish x then Inr [] else to_string h x) xs) of
        Inl e \<Rightarrow> Inl e
      | Inr ss \<Rightarrow> Inr (join (str '','') ss))"
| "to_string h (JObj kvs) =
     (case map_of kvs (str ''toString'') of
        None \<Rightarrow> Inr (str ''[object Object]'')
      | Some v \<Rightarrow> Inl TypeError)"
| "to_string h (JBuiltin b) = builtin_to_string h b"

text \<open>
  \<^verbatim>\<open>ToNumber\<close>, as a comparison with a number applies it: an object and an array go
  through \<^verbatim>\<open>ToPrimitive\<close> as above, and the string it gives is read as a number.
\<close>

fun to_number :: "host \<Rightarrow> jsval \<Rightarrow> exn + jsnum" where
  "to_number h JUndefined = Inr NaN"
| "to_number h JNull = Inr (Finite 0)"
| "to_number h (JBool b) = Inr (Finite (if b then 1 else 0))"
| "to_number h (JNum n) = Inr n"
| "to_number h (JStr s) = Inr (string_to_number h s)"
| "to_number h (JArr xs) =
     (case to_string h (JArr xs) of Inl e \<Rightarrow> Inl e | Inr s \<Rightarrow> Inr (string_to_number h s))"
| "to_number h (JObj kvs) =
     (case to_string h (JObj kvs) of Inl e \<Rightarrow> Inl e | Inr s \<Rightarrow> Inr (string_to_number h s))"
| "to_number h (JBuiltin b) = builtin_to_number h b"

text \<open>
  \<^verbatim>\<open>v >= c\<close> for a numeric literal \<open>c\<close>: false when \<open>v\<close> converts to NaN, an exception when
  the conversion throws.
\<close>

definition js_ge :: "host \<Rightarrow> jsval \<Rightarrow> real \<Rightarrow> exn + bool" where
  "js_ge h v c =
     (case to_number h v of
        Inl e \<Rightarrow> Inl e
      | Inr (Finite x) \<Rightarrow> Inr (c \<le> x)
      | Inr PosInfinity \<Rightarrow> Inr True
      | Inr NegInfinity \<Rightarrow> Inr False
      | Inr NaN \<Rightarrow> Inr False)"

section \<open>Score classifier\<close>

text \<open>
  \<^verbatim>\<open>
  function getScoreClass(score) {
    if (score >= 90) return 'excellent';
    if (score >= 75) return 'good';
    if (score >= 60) return 'average';
    return 'poor';
  }
  \<close>
\<close>

definition getScoreClass :: "host \<Rightarrow> jsval \<Rightarrow> exn + jsstring" where
  "getScoreClass h score =
     (case js_ge h score 90 of
        Inl e \<Rightarrow> Inl e
      | Inr True \<Rightarrow> Inr (str ''excellent'')
      | Inr False \<Rightarrow>
          (case js_ge h score 75 of
             Inl e \<Rightarrow> Inl e
           | Inr True \<Rightarrow> Inr (str ''good'')
           | Inr False \<Rightarrow>
               (case js_ge h score 60 of
                  Inl e \<Rightarrow> Inl e
                | Inr True \<Rightarrow> Inr (str ''average'')
                | Inr False \<Rightarrow> Inr (str ''poor''))))"

section \<open>Property reads\<close>

text \<open>
  A key names an element of an array or a code unit of a string when it is the canonical
  decimal form of its index: \<^verbatim>\<open>"0"\<close>, \<^verbatim>\<open>"17"\<close>, but not \<^verbatim>\<open>"01"\<close>.
\<close>

definition is_digit :: "nat \<Rightarrow> bool" where
  "is_digit u = (48 \<le> u \<and> u \<le> 57)"

definition array_index :: "jsstring \<Rightarrow> nat option" where
  "array_index k =
     (if k \<noteq> [] \<and> list_all is_digit k \<and> (k = [48] \<or> hd k \<noteq> 48)
      then Some (foldl (\<lambda>a u. 10 * a + (u - 48)) 0 k)
      else None)"

text \<open>
  The own properties of a decoded value: the properties of an object, the length and the
  elements of an array, the length and the code units of a string. A number and a boolean
  have none.
\<close>

fun own_property :: "jsval \<Rightarrow> jsstring \<Rightarrow> jsval option" where
  "own_property (JObj kvs) k = map_of kvs k"
| "own_property (JArr xs) k =
     (if k = str ''length'' then Some (JNum (Finite (real (length xs))))
      else case array_index k of
             None \<Rightarrow> None
           | Some i \<Rightarrow> if i < length xs then Some (xs ! i) else None)"
| "own_property (JStr s) k =
     (if k = str ''length'' then Some (JNum (Finite (real (length s))))
      else case array_index k of
             None \<Rightarrow> None
           | Some i \<Rightarrow> if i < length s then Some (JStr [s ! i]) else None)"
| "own_property _ k = None"

text \<open>
  \<^verbatim>\<open>v[k]\<close>: reading a property of \<^verbatim>\<open>null\<close> or \<^verbatim>\<open>undefined\<close> throws; an own property is
  found first; any other name is looked up on the prototype chain.
\<close>

definition get_prop :: "host \<Rightarrow> jsval \<Rightarrow> jsstring \<Rightarrow> exn + jsval" where
  "get_prop h v k =
     (if nullish v then Inl TypeError
      else case v of
             JBuiltin b \<Rightarrow> builtin_get h b k
           | _ \<Rightarrow> (case own_property v k of Some x \<Rightarrow> Inr x | None \<Rightarrow> inherited h v k))"

section \<open>Safe path resolver\<close>

text \<open>\<^verbatim>\<open>s.split(sep)\<close> for a separator of one code unit: never empty, \<^verbatim>\<open>"".split(".")\<close> is \<^verbatim>\<open>[""]\<close>.\<close>

fun split_on :: "nat \<Rightarrow> jsstring \<Rightarrow> jsstring list" where
  "split_on sep [] = [[]]"
| "split_on sep (u # us) =
     (if u = sep then [] # split_on sep us
      else case split_on sep us of
             [] \<Rightarrow> [[u]]
           | w # ws \<Rightarrow> (u # w) # ws)"

text \<open>
  \<^verbatim>\<open>
  function safeGet(obj, path, fallback = null) {
    try {
      return path.split(".").reduce((acc, key) => (acc ? acc[key] : undefined), obj) ?? fallback;
    } catch {
      return fallback;
    }
  }
  \<close>
  The default parameter replaces an omitted or \<^verbatim>\<open>undefined\<close> third argument by \<^verbatim>\<open>null\<close>.
  \<open>path.split\<close> is a function when \<open>path\<close> is a string; on a decoded value of another
  kind the call throws.
\<close>

definition default_null :: "jsval \<Rightarrow> jsval" where
  "default_null fallback = (if fallback = JUndefined then JNull else fallback)"

definition split_path :: "host \<Rightarrow> jsval \<Rightarrow> exn + jsstring list" where
  "split_path h path =
     (case path of
        JStr p \<Rightarrow> Inr (split_on 46 p)
      | JBuiltin b \<Rightarrow> builtin_split h b
      | _ \<Rightarrow> Inl TypeError)"

fun reduce_path :: "host \<Rightarrow> jsval \<Rightarrow> jsstring list \<Rightarrow> exn + jsval" where
  "reduce_path h acc [] = Inr acc"
| "reduce_path h acc (key # keys) =
     (case (if truthy acc then get_prop h acc key else Inr JUndefined) of
        Inl e \<Rightarrow> Inl e
      | Inr acc' \<Rightarrow> reduce_path h acc' keys)"

definition safeGet_try :: "host \<Rightarrow> jsval \<Rightarrow> jsval \<Rightarrow> jsval \<Rightarrow> exn + jsval" where
  "safeGet_try h obj path fallback =
     (case split_path h path of
        Inl e \<Rightarrow> Inl e
      | Inr keys \<Rightarrow>
          (case reduce_path h obj keys of
             Inl e \<Rightarrow> Inl e
           | Inr v \<Rightarrow> Inr (nullish_or v fallback)))"

definition safeGet :: "host \<Rightarrow> jsval \<Rightarrow> jsval \<Rightarrow> jsval \<Rightarrow> jsval" where
  "safeGet h obj path fallback =
     (let fallback = default_null fallback
      in case safeGet_try h obj path fallback of
           Inl e \<Rightarrow> fallback
         | Inr v \<Rightarrow> v)"

text \<open>
  The reference the resolver is compared with: optional chaining
  \<^verbatim>\<open>obj?.[k1]?.[k2]...\<close>, which stops at \<^verbatim>\<open>null\<close> and \<^verbatim>\<open>undefined\<close> only and reads every
  property the way \<^verbatim>\<open>acc[key]\<close> does.
\<close>

fun chain :: "host \<Rightarrow> jsval \<Rightarrow> jsstring list \<Rightarrow> exn + jsval" where
  "chain h v [] = Inr v"
| "chain h v (k # ks) =
     (if nullish v then Inr JUndefined
      else case get_prop h v k of Inl e \<Rightarrow> Inl e | Inr v' \<Rightarrow> chain h v' ks)"

section \<open>Hashtag classifier\<close>

text \<open>
  \<^verbatim>\<open>
  const MANDATORY_HASHTAGS = ["#snssquare", "#snsihub", "#snsdesignthinking", "#designthinkers"];

  function isMandatoryHashtag(tag) {
    const normalized = tag.toLowerCase().replace(/[^a-z0-9]/g, '');
    return MANDATORY_HASHTAGS.some(mandatory =>
      mandatory.toLowerCase().replace(/[^a-z0-9]/g, '') === normalized
    );
  }
  \<close>
  \<open>tag.toLowerCase\<close> is a function when \<open>tag\<close> is a string; on a decoded value of
  another kind the call throws.
\<close>

definition MANDATORY_HASHTAGS :: "jsstring list" where
  "MANDATORY_HASHTAGS =
     [str ''#snssquare'', str ''#snsihub'', str ''#snsdesignthinking'', str ''#designthinkers'']"

definition toLowerCase :: "host \<Rightarrow> jsval \<Rightarrow> exn + jsstring" where
  "toLowerCase h v =
     (case v of
        JStr s \<Rightarrow> Inr (to_lower_case h s)
      | JBuiltin b \<Rightarrow> builtin_to_lower_case h b
      | _ \<Rightarrow> Inl TypeError)"

text \<open>The character class \<^verbatim>\<open>[a-z0-9]\<close> and \<^verbatim>\<open>s.replace(/[^a-z0-9]/g, '')\<close>.\<close>

definition in_az09 :: "nat \<Rightarrow> bool" where
  "in_az09 u = ((97 \<le> u \<and> u \<le> 122) \<or> (48 \<le> u \<and> u \<le> 57))"

fun replace_non_az09 :: "jsstring \<Rightarrow> jsstring" where
  "replace_non_az09 [] = []"
| "replace_non_az09 (u # us) =
     (if in_az09 u then u # replace_non_az09 us else replace_non_az09 us)"

definition isMandatoryHashtag :: "host \<Rightarrow> jsval \<Rightarrow> exn + bool" where
  "isMandatoryHashtag h tag =
     (case toLowerCase h tag of
        Inl e \<Rightarrow> Inl e
      | Inr lowered \<Rightarrow>
          (let normalized = replace_non_az09 lowered
           in Inr (list_ex (\<lambda>mandatory. replace_non_az09 (to_lower_case h mandatory) = normalized)
                     MANDATORY_HASHTAGS)))"

section \<open>\<^verbatim>\<open>JSON.stringify\<close>\<close>

text \<open>
  A string is quoted with the escapes of \<^verbatim>\<open>QuoteJSONString\<close>: a backslash (code unit 92)
  before a quote or a backslash, the short escapes of backspace, tab, line feed, form feed
  and carriage return, and the four-digit hexadecimal escape for the other control
  characters and for a surrogate that is not part of a pair.
\<close>

definition hex_digit :: "nat \<Rightarrow> nat" where
  "hex_digit d = (if d < 10 then 48 + d else 87 + d)"

definition unicode_escape :: "nat \<Rightarrow> jsstring" where
  "unicode_escape u =
     [92, 117] @ map hex_digit [u div 4096 mod 16, u div 256 mod 16, u div 16 mod 16, u mod 16]"

definition is_leading_surrogate :: "nat \<Rightarrow> bool" where
  "is_leading_surrogate u = (55296 \<le> u \<and> u \<le> 56319)"

definition is_trailing_surrogate :: "nat \<Rightarrow> bool" where
  "is_trailing_surrogate u = (56320 \<le> u \<and> u \<le> 57343)"

definition escape_unit :: "nat \<Rightarrow> jsstring" where
  "escape_unit u =
     (if u = 8 then [92, 98]
      else if u = 9 then [92, 116]
      else if u = 10 then [92, 110]
      else if u = 12 then [92, 102]
      else if u = 13 then [92, 114]
      else if u = 34 then [92, 34]
      else if u = 92 then [92, 92]
      else if u < 32 \<or> is_leading_surrogate u \<or> is_trailing_surrogate u then unicode_escape u
      else [u])"

fun escape_json :: "jsstring \<Rightarrow> jsstring" where
  "escape_json [] = []"
| "escape_json [u] = escape_unit u"
| "escape_json (u # v # us) =
     (if is_leading_surrogate u \<and> is_trailing_surrogate v then u # v # escape_json us
      else escape_unit u @ escape_json (v # us))"

definition quote_json :: "jsstring \<Rightarrow> jsstring" where
  "quote_json s = [34] @ escape_json s @ [34]"

text \<open>
  \<open>stringify h v\<close> is \<^verbatim>\<open>JSON.stringify(v)\<close>, \<open>None\<close> standing for the result
  \<^verbatim>\<open>undefined\<close>. A number that is not finite is written \<^verbatim>\<open>null\<close>; an element of an array
  that has no text is written \<^verbatim>\<open>null\<close> and a property that has none is left out. A
  decoded object has no callable \<^verbatim>\<open>toJSON\<close>.
\<close>

definition element_text :: "jsstring option \<Rightarrow> jsstring" where
  "element_text r = (case r of None \<Rightarrow> str ''null'' | Some s \<Rightarrow> s)"

definition property_text :: "jsstring \<Rightarrow> jsstring option \<Rightarrow> jsstring list" where
  "property_text k r = (case r of None \<Rightarrow> [] | Some s \<Rightarrow> [quote_json k @ str '':'' @ s])"

fun stringify :: "host \<Rightarrow> jsval \<Rightarrow> exn + jsstring option" where
  "stringify h JUndefined = Inr None"
| "stringify h JNull = Inr (Some (str ''null''))"
| "stringify h (JBool b) = Inr (Some (if b then str ''true'' else str ''false''))"
| "stringify h (JNum (Finite x)) = Inr (Some (number_to_string h (Finite x)))"
| "stringify h (JNum _) = Inr (Some (str ''null''))"
| "stringify h (JStr s) = Inr (Some (quote_json s))"
| "stringify h (JArr xs) =
     (case all_results (map (\<lambda>x. stringify h x) xs) of
        Inl e \<Rightarrow> Inl e
      | Inr rs \<Rightarrow> Inr (Some (str ''['' @ join (str '','') (map element_text rs) @ str '']'')))"
| "stringify h (JObj kvs) =
     (case all_results (map (\<lambda>kv. stringify h (snd kv)) kvs) of
        Inl e \<Rightarrow> Inl e
      | Inr rs \<Rightarrow>
          Inr (Some (str ''{'' @
                     join (str '','') (concat (map2 property_text (map fst kvs) rs)) @
                     str ''}'')))"
| "stringify h (JBuiltin b) = builtin_stringify h b"

definition JSON_stringify :: "host \<Rightarrow> jsval \<Rightarrow> exn + jsval" where
  "JSON_stringify h v =
     (case stringify h v of
        Inl e \<Rightarrow> Inl e
      | Inr None \<Rightarrow> Inr JUndefined
      | Inr (Some s) \<Rightarrow> Inr (JStr s))"

section \<open>The page\<close>

text \<open>
  The state of the elements the script writes. An element's text is the value assigned to
  \<^verbatim>\<open>textContent\<close> (the browser shows its string form). A container has the markup
  assigned to \<^verbatim>\<open>innerHTML\<close> and the children appended afterwards. \<open>scoreSection\<close> is the
  class of the element matching \<^verbatim>\<open>.score-section\<close>, if the page has one.
  \<open>scoreBarFill_pending\<close> holds the scores whose bar update \<^verbatim>\<open>setTimeout\<close> has scheduled.
\<close>

record node =
  textContent :: jsval
  className :: jsstring

record container =
  innerHTML :: jsstring
  children :: "node list"

record page =
  btnText :: jsval
  btnSpinner_hidden :: bool
  errorBox_text :: jsval
  errorBox_hidden :: bool
  resultEmpty_hidden :: bool
  resultContent_hidden :: bool
  overallScoreEl :: node
  scoreSection :: "jsstring option"
  scoreQualityEl :: node
  scoreSeoEl :: node
  scoreEngagementEl :: node
  scoreStructureEl :: node
  scoreBarFill_pending :: "jsval list"
  issuesListEl :: container
  grammarSummaryEl :: jsval
  toneSummaryEl :: jsval
  ctaStatusEl :: jsval
  tagsFinalEl :: container
  tagsTrendingEl :: container
  optimizedTitleEl :: jsval
  optimizedContentEl :: jsval
  ctaListEl :: container

text \<open>
  \<^verbatim>\<open>
  function setLoading(isLoading) {
    if (isLoading) {
      btnText.textContent = "Analyzing...";
      btnSpinner.classList.remove("hidden");
    } else {
      btnText.textContent = "Run QA";
      btnSpinner.classList.add("hidden");
    }
  }
  \<close>
\<close>

definition setLoading :: "bool \<Rightarrow> page \<Rightarrow> page" where
  "setLoading isLoading p =
     (if isLoading
      then p\<lparr>btnText := JStr (str ''Analyzing...''), btnSpinner_hidden := False\<rparr>
      else p\<lparr>btnText := JStr (str ''Run QA''), btnSpinner_hidden := True\<rparr>)"

text \<open>
  \<^verbatim>\<open>xs.forEach(f)\<close> where \<open>f\<close> makes one child of a container or throws: the children
  appended so far stay when a pass throws. \<open>elements h v\<close> are the values
  \<^verbatim>\<open>v.forEach\<close> visits: \<open>forEach\<close> is a function when \<open>v\<close> is an array; on a decoded value
  of another kind the call throws.
\<close>

fun for_each :: "(jsval \<Rightarrow> exn + node) \<Rightarrow> jsval list \<Rightarrow> container \<Rightarrow> container \<times> exn option" where
  "for_each f [] c = (c, None)"
| "for_each f (x # xs) c =
     (case f x of
        Inl e \<Rightarrow> (c, Some e)
      | Inr n \<Rightarrow> for_each f xs (c\<lparr>children := children c @ [n]\<rparr>))"

definition elements :: "host \<Rightarrow> jsval \<Rightarrow> exn + jsval list" where
  "elements h v =
     (case v of
        JArr xs \<Rightarrow> Inr xs
      | JBuiltin b \<Rightarrow> builtin_for_each h b
      | _ \<Rightarrow> Inl TypeError)"

section \<open>Hashtag chips\<close>

text \<open>
  One pass of the \<^verbatim>\<open>forEach\<close> body of \<^verbatim>\<open>renderChips\<close>: the chip for \<open>item\<close>, or the
  exception thrown before the chip is appended.
  \<^verbatim>\<open>
    let label = item;
    let competitionClass = '';
    let isMandatory = false;
    if (typeof item === "object" && item !== null) {
      label = item.tag || JSON.stringify(item);
      isMandatory = isMandatoryHashtag(label);
      if (item.competition_level) {
        const level = item.competition_level.toLowerCase();
        competitionClass = ` competition-${level}`;
        label += ` <middle dot> ${item.competition_level}`;
      }
    } else {
      isMandatory = isMandatoryHashtag(label);
    }
    const chip = document.createElement("span");
    let className = "chip";
    if (isMandatory) { className += " mandatory"; }
    else if (trending) { className += " trending"; }
    className += competitionClass;
    chip.className = className;
    chip.textContent = label;
    container.appendChild(chip);
  \<close>
  The separator written before the competition level is a space, a middle dot (code unit
  183) and a space.
\<close>

definition chip_class :: "bool \<Rightarrow> bool \<Rightarrow> jsstring \<Rightarrow> jsstring" where
  "chip_class isMandatory trending competitionClass =
     str ''chip'' @
     (if isMandatory then str '' mandatory'' else if trending then str '' trending'' else []) @
     competitionClass"

definition with_competition ::
  "host \<Rightarrow> bool \<Rightarrow> bool \<Rightarrow> jsval \<Rightarrow> jsval \<Rightarrow> exn + node" where
  "with_competition h isMandatory trending label competition_level =
     (case toLowerCase h competition_level of
        Inl e \<Rightarrow> Inl e
      | Inr level \<Rightarrow>
          (case to_string h competition_level of
             Inl e \<Rightarrow> Inl e
           | Inr shown \<Rightarrow>
               (case to_string h label of
                  Inl e \<Rightarrow> Inl e
                | Inr l \<Rightarrow>
                    Inr \<lparr>textContent = JStr (l @ [32, 183, 32] @ shown),
                         className =
                           chip_class isMandatory trending (str '' competition-'' @ level)\<rparr>)))"

definition make_chip :: "host \<Rightarrow> bool \<Rightarrow> jsval \<Rightarrow> exn + node" where
  "make_chip h trending item =
     (if is_object h item then
        (case or_else (get_prop h item (str ''tag'')) (JSON_stringify h item) of
           Inl e \<Rightarrow> Inl e
         | Inr label \<Rightarrow>
             (case isMandatoryHashtag h label of
                Inl e \<Rightarrow> Inl e
              | Inr isMandatory \<Rightarrow>
                  (case get_prop h item (str ''competition_level'') of
                     Inl e \<Rightarrow> Inl e
                   | Inr competition_level \<Rightarrow>
                       if truthy competition_level
                       then with_competition h isMandatory trending label competition_level
                       else Inr \<lparr>textContent = label,
                                 className = chip_class isMandatory trending []\<rparr>)))
      else
        (case isMandatoryHashtag h item of
           Inl e \<Rightarrow> Inl e
         | Inr isMandatory \<Rightarrow>
             Inr \<lparr>textContent = item, className = chip_class isMandatory trending []\<rparr>))"

text \<open>
  \<^verbatim>\<open>
  function renderChips(container, items, { trending = false } = {}) {
    container.innerHTML = "";
    if (!items || !items.length) {
      container.innerHTML = '<span class="muted">None</span>';
      return;
    }
    items.forEach((item) => { ... });
  }
  \<close>
\<close>

definition renderChips :: \<open>host \<Rightarrow> container \<Rightarrow> jsval \<Rightarrow> bool \<Rightarrow> container \<times> exn option\<close> where
  \<open>renderChips h c items trending =
     (let c = c\<lparr>innerHTML := [], children := []\<rparr>;
          none = c\<lparr>innerHTML := str ''<span class="muted">None</span>''\<rparr>
      in if \<not> truthy items then (none, None)
         else case get_prop h items (str ''length'') of
                Inl e \<Rightarrow> (c, Some e)
              | Inr len \<Rightarrow>
                  if \<not> truthy len then (none, None)
                  else case elements h items of
                         Inl e \<Rightarrow> (c, Some e)
                       | Inr xs \<Rightarrow> for_each (make_chip h trending) xs c)\<close>

section \<open>Rendering a response\<close>

text \<open>
  The statements of the submit handler between \<^verbatim>\<open>const data = await res.json()\<close> and
  the end of the \<^verbatim>\<open>try\<close> block. Each group of statements takes the page and gives the
  page as it is when the group ends, with the exception that ended it, if any: what was
  written before an exception stays written.
\<close>

type_synonym step = "page \<Rightarrow> page \<times> exn option"

definition and_then :: "step \<Rightarrow> step \<Rightarrow> step" where
  "and_then f g p = (case f p of (p', None) \<Rightarrow> g p' | (p', Some e) \<Rightarrow> (p', Some e))"

definition reading :: "exn + 'a \<Rightarrow> ('a \<Rightarrow> step) \<Rightarrow> step" where
  "reading r f p = (case r of Inl e \<Rightarrow> (p, Some e) | Inr v \<Rightarrow> f v p)"

definition writing :: "(page \<Rightarrow> page) \<Rightarrow> step" where
  "writing f p = (f p, None)"

text \<open>
  \<^verbatim>\<open>
    const overallScore = result.overall_score ?? 0;
    overallScoreEl.textContent = overallScore;
    overallScoreEl.className = 'score-big ' + getScoreClass(overallScore);
    const scoreSection = document.querySelector('.score-section');
    if (scoreSection) {
      scoreSection.className = 'score-section ' + getScoreClass(overallScore);
    }
  \<close>
\<close>

definition render_overall :: "host \<Rightarrow> jsval \<Rightarrow> step" where
  "render_overall h overallScore =
     and_then
       (writing (\<lambda>p. p\<lparr>overallScoreEl := (overallScoreEl p)\<lparr>textContent := overallScore\<rparr>\<rparr>))
    (and_then
       (reading (getScoreClass h overallScore) (\<lambda>c.
          writing (\<lambda>p. p\<lparr>overallScoreEl :=
                           (overallScoreEl p)\<lparr>className := str ''score-big '' @ c\<rparr>\<rparr>)))
       (\<lambda>p. case scoreSection p of
               None \<Rightarrow> (p, None)
             | Some old \<Rightarrow>
                 reading (getScoreClass h overallScore) (\<lambda>c.
                   writing (\<lambda>p. p\<lparr>scoreSection := Some (str ''score-section '' @ c)\<rparr>)) p))"

text \<open>
  \<^verbatim>\<open>
    const breakdown = result.scores_breakdown || {};
    scoreQualityEl.textContent = breakdown.quality_score ?? "<en dash>";
    scoreQualityEl.className = 'score-value ' + getScoreClass(breakdown.quality_score ?? 0);
  \<close>
  and the same for \<^verbatim>\<open>seo_score\<close>, \<^verbatim>\<open>engagement_score\<close> and \<^verbatim>\<open>structure_score\<close>. The
  placeholder is the one-character string of the en dash (code unit 8211). \<open>el\<close> is the
  update of the element's field of the page.
\<close>

definition score_placeholder :: jsval where
  "score_placeholder = JStr [8211]"

definition render_score ::
  "host \<Rightarrow> ((node \<Rightarrow> node) \<Rightarrow> page \<Rightarrow> page) \<Rightarrow> jsval \<Rightarrow> jsstring \<Rightarrow> step" where
  "render_score h el breakdown key =
     reading (get_prop h breakdown key) (\<lambda>v.
       and_then
         (writing (el (\<lambda>n. n\<lparr>textContent := nullish_or v score_placeholder\<rparr>)))
         (reading (getScoreClass h (nullish_or v (JNum (Finite 0)))) (\<lambda>c.
            writing (el (\<lambda>n. n\<lparr>className := str ''score-value '' @ c\<rparr>)))))"

definition render_breakdown :: "host \<Rightarrow> jsval \<Rightarrow> step" where
  "render_breakdown h result =
     reading (get_prop h result (str ''scores_breakdown'')) (\<lambda>sb.
       let breakdown = js_or sb (JObj [])
       in and_then (render_score h scoreQualityEl_update breakdown (str ''quality_score''))
         (and_then (render_score h scoreSeoEl_update breakdown (str ''seo_score''))
         (and_then (render_score h scoreEngagementEl_update breakdown (str ''engagement_score''))
                   (render_score h scoreStructureEl_update breakdown (str ''structure_score'')))))"

text \<open>
  \<^verbatim>\<open>
    const scoreBarFill = document.getElementById("score-bar-fill");
    setTimeout(() => {
      scoreBarFill.style.width = `${Math.min(overallScore, 100)}%`;
    }, 100);
  \<close>
  The callback runs after the handler; the model records the score it was scheduled with.
\<close>

definition schedule_score_bar :: "jsval \<Rightarrow> step" where
  "schedule_score_bar overallScore =
     writing (\<lambda>p. p\<lparr>scoreBarFill_pending := scoreBarFill_pending p @ [overallScore]\<rparr>)"

definition render_scores :: "host \<Rightarrow> jsval \<Rightarrow> step" where
  "render_scores h result =
     reading (get_prop h result (str ''overall_score'')) (\<lambda>v.
       let overallScore = nullish_or v (JNum (Finite 0))
       in and_then (render_overall h overallScore)
         (and_then (render_breakdown h result)
            (schedule_score_bar overallScore)))"

text \<open>
  \<^verbatim>\<open>
    const issues = result.issues_found || [];
    issuesListEl.innerHTML = "";
    if (!issues.length) {
      issuesListEl.innerHTML = '<li class="muted">No major issues found.</li>';
    } else {
      issues.forEach((issue) => {
        const li = document.createElement("li");
        if (typeof issue === 'object' && issue !== null) {
          li.textContent = issue.issue || issue.message || JSON.stringify(issue);
        } else {
          li.textContent = issue;
        }
        issuesListEl.appendChild(li);
      });
    }
  \<close>
\<close>

definition issue_text :: "host \<Rightarrow> jsval \<Rightarrow> exn + jsval" where
  "issue_text h issue =
     (if is_object h issue
      then or_else (get_prop h issue (str ''issue''))
             (or_else (get_prop h issue (str ''message'')) (JSON_stringify h issue))
      else Inr issue)"

definition li :: "jsval \<Rightarrow> node" where
  "li v = \<lparr>textContent = v, className = []\<rparr>"

definition issue_item :: "host \<Rightarrow> jsval \<Rightarrow> exn + node" where
  "issue_item h issue = (case issue_text h issue of Inl e \<Rightarrow> Inl e | Inr v \<Rightarrow> Inr (li v))"

definition render_issues :: \<open>host \<Rightarrow> jsval \<Rightarrow> step\<close> where
  \<open>render_issues h result =
     reading (get_prop h result (str ''issues_found'')) (\<lambda>v.
       let issues = js_or v (JArr [])
       in and_then
            (writing (\<lambda>p. p\<lparr>issuesListEl := \<lparr>innerHTML = [], children = []\<rparr>\<rparr>))
            (reading (get_prop h issues (str ''length'')) (\<lambda>len.
               if \<not> truthy len
               then writing (\<lambda>p. p\<lparr>issuesListEl :=
                      (issuesListEl p)\<lparr>innerHTML :=
                         str ''<li class="muted">No major issues found.</li>''\<rparr>\<rparr>)
               else reading (elements h issues) (\<lambda>xs p.
                      case for_each (issue_item h) xs (issuesListEl p) of
                        (c, e) \<Rightarrow> (p\<lparr>issuesListEl := c\<rparr>, e)))))\<close>

text \<open>
  \<^verbatim>\<open>
    const checks = result.content_checks || {};
    grammarSummaryEl.textContent = `Grammar: ${checks.grammar_summary || "N/A"}`;
    toneSummaryEl.textContent = `Tone: ${checks.tone_summary || "N/A"}`;
    ctaStatusEl.textContent = `CTA: ${checks.cta_status || "N/A"}`;
  \<close>
\<close>

definition check_line :: "host \<Rightarrow> jsstring \<Rightarrow> jsval \<Rightarrow> exn + jsval" where
  "check_line h prefix v =
     (case to_string h (js_or v (JStr (str ''N/A''))) of
        Inl e \<Rightarrow> Inl e
      | Inr s \<Rightarrow> Inr (JStr (prefix @ s)))"

definition render_check ::
  "host \<Rightarrow> ((jsval \<Rightarrow> jsval) \<Rightarrow> page \<Rightarrow> page) \<Rightarrow> jsval \<Rightarrow> jsstring \<Rightarrow> jsstring \<Rightarrow> step" where
  "render_check h el checks key prefix =
     reading (get_prop h checks key) (\<lambda>v.
       reading (check_line h prefix v) (\<lambda>line. writing (el (\<lambda>old. line))))"

definition render_checks :: "host \<Rightarrow> jsval \<Rightarrow> step" where
  "render_checks h result =
     reading (get_prop h result (str ''content_checks'')) (\<lambda>cc.
       let checks = js_or cc (JObj [])
       in and_then
            (render_check h grammarSummaryEl_update checks (str ''grammar_summary'')
               (str ''Grammar: ''))
         (and_then
            (render_check h toneSummaryEl_update checks (str ''tone_summary'') (str ''Tone: ''))
            (render_check h ctaStatusEl_update checks (str ''cta_status'') (str ''CTA: ''))))"

text \<open>
  \<^verbatim>\<open>
    const tags = result.hashtags || {};
    const finalPack = safeGet(result, "final_output.final_hashtag_pack", []);
    renderChips(tagsFinalEl, finalPack);
    renderChips(tagsTrendingEl, tags.trending || [], { trending: true });
  \<close>
\<close>

definition render_hashtags :: "host \<Rightarrow> jsval \<Rightarrow> step" where
  "render_hashtags h result =
     reading (get_prop h result (str ''hashtags'')) (\<lambda>t.
       let tags = js_or t (JObj []);
           finalPack = safeGet h result (JStr (str ''final_output.final_hashtag_pack'')) (JArr [])
       in and_then
            (\<lambda>p. case renderChips h (tagsFinalEl p) finalPack False of
                    (c, e) \<Rightarrow> (p\<lparr>tagsFinalEl := c\<rparr>, e))
            (reading (get_prop h tags (str ''trending'')) (\<lambda>tr p.
               case renderChips h (tagsTrendingEl p) (js_or tr (JArr [])) True of
                 (c, e) \<Rightarrow> (p\<lparr>tagsTrendingEl := c\<rparr>, e))))"

text \<open>
  \<^verbatim>\<open>
    const finalOut = result.final_output || {};
    optimizedTitleEl.textContent = finalOut.optimized_title || "";
    optimizedContentEl.textContent = finalOut.optimized_content || "";
  \<close>
\<close>

definition render_optimized :: "host \<Rightarrow> jsval \<Rightarrow> step" where
  "render_optimized h result =
     reading (get_prop h result (str ''final_output'')) (\<lambda>fo.
       let finalOut = js_or fo (JObj [])
       in and_then
            (reading (get_prop h finalOut (str ''optimized_title'')) (\<lambda>v.
               writing (\<lambda>p. p\<lparr>optimizedTitleEl := js_or v (JStr [])\<rparr>)))
            (reading (get_prop h finalOut (str ''optimized_content'')) (\<lambda>v.
               writing (\<lambda>p. p\<lparr>optimizedContentEl := js_or v (JStr [])\<rparr>))))"

text \<open>
  \<^verbatim>\<open>
    const improvements = result.improvements || {};
    const ctas = improvements.cta_variants || [];
    ctaListEl.innerHTML = "";
    if (!ctas.length) {
      ctaListEl.innerHTML = '<li class="muted">No CTA variants returned.</li>';
    } else {
      ctas.forEach((cta) => {
        const li = document.createElement("li");
        li.textContent = cta;
        ctaListEl.appendChild(li);
      });
    }
  \<close>
\<close>

definition render_ctas :: \<open>host \<Rightarrow> jsval \<Rightarrow> step\<close> where
  \<open>render_ctas h result =
     reading (get_prop h result (str ''improvements'')) (\<lambda>im.
       let improvements = js_or im (JObj [])
       in reading (get_prop h improvements (str ''cta_variants'')) (\<lambda>cv.
            let ctas = js_or cv (JArr [])
            in and_then
                 (writing (\<lambda>p. p\<lparr>ctaListEl := \<lparr>innerHTML = [], children = []\<rparr>\<rparr>))
                 (reading (get_prop h ctas (str ''length'')) (\<lambda>len.
                    if \<not> truthy len
                    then writing (\<lambda>p. p\<lparr>ctaListEl :=
                           (ctaListEl p)\<lparr>innerHTML :=
                              str ''<li class="muted">No CTA variants returned.</li>''\<rparr>\<rparr>)
                    else reading (elements h ctas) (\<lambda>xs p.
                           case for_each (\<lambda>cta. Inr (li cta)) xs (ctaListEl p) of
                             (c, e) \<Rightarrow> (p\<lparr>ctaListEl := c\<rparr>, e))))))\<close>

text \<open>
  The whole sequence, from the decoded body \<open>data\<close>:
  \<^verbatim>\<open>
    const result = data.raw_json || data; // in case response_model changed
    resultEmpty.classList.add("hidden");
    resultContent.classList.remove("hidden");
    ...
  \<close>
  \<open>normalized h data\<close> is the value of \<open>result\<close>.
\<close>

definition normalized :: "host \<Rightarrow> jsval \<Rightarrow> exn + jsval" where
  "normalized h data =
     (case get_prop h data (str ''raw_json'') of
        Inl e \<Rightarrow> Inl e
      | Inr raw_json \<Rightarrow> Inr (js_or raw_json data))"

definition render_from :: "host \<Rightarrow> jsval \<Rightarrow> step" where
  "render_from h result =
     and_then (writing (\<lambda>p. p\<lparr>resultEmpty_hidden := True, resultContent_hidden := False\<rparr>))
    (and_then (render_scores h result)
    (and_then (render_issues h result)
    (and_then (render_checks h result)
    (and_then (render_hashtags h result)
    (and_then (render_optimized h result)
              (render_ctas h result))))))"

definition render_result :: "host \<Rightarrow> jsval \<Rightarrow> step" where
  "render_result h data = reading (normalized h data) (render_from h)"

section \<open>The submit handler\<close>

text \<open>
  \<^verbatim>\<open>s.trim()\<close> removes the white space and line terminators of ECMAScript from both ends:
  tab, line feed, vertical tab, form feed, carriage return, space, no-break space, the
  byte order mark and the Unicode space separators.
\<close>

definition is_space :: "nat \<Rightarrow> bool" where
  "is_space u =
     ((9 \<le> u \<and> u \<le> 13) \<or> u = 32 \<or> u = 160 \<or> u = 5760 \<or> (8192 \<le> u \<and> u \<le> 8202) \<or>
      u = 8232 \<or> u = 8233 \<or> u = 8239 \<or> u = 8287 \<or> u = 12288 \<or> u = 65279)"

definition trim :: "jsstring \<Rightarrow> jsstring" where
  "trim s = rev (dropWhile is_space (rev (dropWhile is_space s)))"

text \<open>The \<^verbatim>\<open>value\<close> of each field of the form when it is submitted.\<close>

record form =
  platform_value :: jsstring
  title_value :: jsstring
  content_value :: jsstring
  hashtags_value :: jsstring
  geo_value :: jsstring
  niche_value :: jsstring
  target_audience_value :: jsstring

text \<open>
  \<^verbatim>\<open>
  const hashtags =
    hashtagsRaw.length > 0
      ? hashtagsRaw.split(",").map((s) => s.trim()).filter(Boolean)
      : [];
  \<close>
\<close>

definition split_hashtags :: "jsstring \<Rightarrow> jsstring list" where
  "split_hashtags hashtagsRaw =
     (if length hashtagsRaw > 0
      then filter (\<lambda>s. truthy (JStr s)) (map trim (split_on 44 hashtagsRaw))
      else [])"

text \<open>
  \<^verbatim>\<open>
  const payload = {
    platform,
    title: title || null,
    content,
    hashtags,
    geo: geo || null,
    niche: niche || null,
    target_audience: targetAudience || null,
  };
  \<close>
  built from the trimmed fields (\<open>platform\<close> is not trimmed).
\<close>

definition build_payload ::
  "jsstring \<Rightarrow> jsstring \<Rightarrow> jsstring \<Rightarrow> jsstring list \<Rightarrow> jsstring \<Rightarrow> jsstring \<Rightarrow> jsstring \<Rightarrow> jsval" where
  "build_payload platform title content hashtags geo niche targetAudience =
     JObj [(str ''platform'', JStr platform),
           (str ''title'', js_or (JStr title) JNull),
           (str ''content'', JStr content),
           (str ''hashtags'', JArr (map JStr hashtags)),
           (str ''geo'', js_or (JStr geo) JNull),
           (str ''niche'', js_or (JStr niche) JNull),
           (str ''target_audience'', js_or (JStr targetAudience) JNull)]"

text \<open>
  \<^verbatim>\<open>
  const API_BASE = window.location.hostname === 'localhost' || window.location.hostname === '127.0.0.1'
    ? "http://localhost:8000"
    : "";
  \<close>
\<close>

definition API_BASE :: "jsstring \<Rightarrow> jsstring" where
  "API_BASE hostname =
     (if hostname = str ''localhost'' \<or> hostname = str ''127.0.0.1''
      then str ''http://localhost:8000''
      else [])"

text \<open>
  A call of \<^verbatim>\<open>fetch\<close> and what comes back: the promise is rejected with an error, or it
  gives a response with its \<^verbatim>\<open>ok\<close> flag and a body that \<^verbatim>\<open>res.json()\<close> decodes or
  rejects with an error.
\<close>

record request =
  url :: jsstring
  http_method :: jsstring
  content_type :: jsstring
  body :: jsval

datatype response_body = Decoded jsval | Undecodable jsstring

datatype fetch_outcome = Rejected jsstring | Response bool response_body

text \<open>\<^verbatim>\<open>err.message\<close> of a caught exception.\<close>

definition message :: "host \<Rightarrow> exn \<Rightarrow> jsstring" where
  "message h e = (case e of TypeError \<Rightarrow> type_error_message h | Error m \<Rightarrow> m)"

text \<open>
  The \<^verbatim>\<open>try\<close> block after the call of \<^verbatim>\<open>fetch\<close>:
  \<^verbatim>\<open>
    if (!res.ok) {
      const errData = await res.json().catch(() => ({}));
      throw new Error(errData.detail || "Server error");
    }
    const data = await res.json();
    ...
  \<close>
\<close>

definition on_outcome :: "host \<Rightarrow> fetch_outcome \<Rightarrow> step" where
  "on_outcome h outcome =
     (case outcome of
        Rejected m \<Rightarrow> (\<lambda>p. (p, Some (Error m)))
      | Response ok b \<Rightarrow>
          if \<not> ok then
            (let errData = (case b of Decoded v \<Rightarrow> v | Undecodable m \<Rightarrow> JObj [])
             in reading (get_prop h errData (str ''detail'')) (\<lambda>detail.
                  reading (to_string h (js_or detail (JStr (str ''Server error'')))) (\<lambda>m p.
                    (p, Some (Error m)))))
          else
            (case b of
               Undecodable m \<Rightarrow> (\<lambda>p. (p, Some (Error m)))
             | Decoded data \<Rightarrow> render_result h data))"

text \<open>
  \<^verbatim>\<open>
    } catch (err) {
      console.error(err);
      errorBox.textContent = err.message || "Something went wrong.";
      errorBox.classList.remove("hidden");
    } finally {
      setLoading(false);
    }
  \<close>
\<close>

definition catch_finally :: "host \<Rightarrow> page \<times> exn option \<Rightarrow> page" where
  "catch_finally h r =
     (case r of
        (p, None) \<Rightarrow> setLoading False p
      | (p, Some err) \<Rightarrow>
          setLoading False
            (p\<lparr>errorBox_text := js_or (JStr (message h err)) (JStr (str ''Something went wrong.'')),
               errorBox_hidden := False\<rparr>))"

text \<open>
  The handler of the form's \<^verbatim>\<open>submit\<close> event, run to its end. \<open>hostname\<close> is
  \<^verbatim>\<open>window.location.hostname\<close> and \<open>fetch\<close> the transport. The result is the page and the
  requests that were sent.
  \<^verbatim>\<open>
    e.preventDefault();
    errorBox.classList.add("hidden");
    errorBox.textContent = "";
    const platform = document.getElementById("platform").value;
    const title = document.getElementById("title").value.trim();
    ...
    if (!content) {
      errorBox.textContent = "Please paste some content to analyze.";
      errorBox.classList.remove("hidden");
      return;
    }
    ...
    setLoading(true);
    try {
      const res = await fetch(`${API_BASE}/analyze`, {
        method: "POST",
        headers: { "Content-Type": "application/json" },
        body: JSON.stringify(payload),
      });
  \<close>
\<close>

definition submit ::
  "host \<Rightarrow> jsstring \<Rightarrow> (request \<Rightarrow> fetch_outcome) \<Rightarrow> form \<Rightarrow> page \<Rightarrow> page \<times> request list" where
  "submit h hostname fetch f p =
     (let p = p\<lparr>errorBox_hidden := True, errorBox_text := JStr []\<rparr>;
          platform = platform_value f;
          title = trim (title_value f);
          content = trim (content_value f);
          hashtagsRaw = trim (hashtags_value f);
          geo = trim (geo_value f);
          niche = trim (niche_value f);
          targetAudience = trim (target_audience_value f)
      in if \<not> truthy (JStr content)
         then (p\<lparr>errorBox_text := JStr (str ''Please paste some content to analyze.''),
                 errorBox_hidden := False\<rparr>, [])
         else
           (let hashtags = split_hashtags hashtagsRaw;
                payload = build_payload platform title content hashtags geo niche targetAudience;
                p = setLoading True p
            in case JSON_stringify h payload of
                 Inl e \<Rightarrow> (catch_finally h (p, Some e), [])
               | Inr text \<Rightarrow>
                   (let req = \<lparr>url = API_BASE hostname @ str ''/analyze'',
                               http_method = str ''POST'',
                               content_type = str ''application/json'',
                               body = text\<rparr>
                    in (catch_finally h (on_outcome h (fetch req) p), [req]))))"

section \<open>A runtime to evaluate with\<close>

text \<open>
  A host for evaluating the model on examples, a fragment of what every JavaScript engine
  does. It writes and reads the natural numbers in decimal (any other number is written as
  \<^verbatim>\<open>NaN\<close>, any other string read as NaN) and lower-cases the letters A to Z. It knows one
  built-in, the function \<^verbatim>\<open>Object\<close> (number 0), which a decoded object inherits as its
  \<^verbatim>\<open>constructor\<close> and whose \<^verbatim>\<open>name\<close> is \<^verbatim>\<open>"Object"\<close>; nothing else is inherited.
\<close>

fun decimal :: "nat \<Rightarrow> jsstring" where
  "decimal n = (if n < 10 then [48 + n] else decimal (n div 10) @ [48 + n mod 10])"

definition ascii_lower :: "nat \<Rightarrow> nat" where
  "ascii_lower u = (if 65 \<le> u \<and> u \<le> 90 then u + 32 else u)"

definition simple_host :: host where
  "simple_host =
     \<lparr>number_to_string =
        (\<lambda>n. case n of
                Finite x \<Rightarrow> if 0 \<le> x \<and> x \<in> \<int> then decimal (nat \<lfloor>x\<rfloor>) else str ''NaN''
              | _ \<Rightarrow> str ''NaN''),
      string_to_number =
        (\<lambda>s. if s \<noteq> [] \<and> list_all is_digit s
              then Finite (real (foldl (\<lambda>a u. 10 * a + (u - 48)) 0 s))
              else NaN),
      to_lower_case = map ascii_lower,
      type_error_message = str ''TypeError'',
      inherited =
        (\<lambda>v k. case v of
                  JObj kvs \<Rightarrow> if k = str ''constructor'' then Inr (JBuiltin 0) else Inr JUndefined
                | _ \<Rightarrow> Inr JUndefined),
      builtin_get = (\<lambda>b k. if b = 0 \<and> k = str ''name'' then Inr (JStr (str ''Object''))
                            else Inr JUndefined),
      builtin_is_object = (\<lambda>b. False),
      builtin_to_string = (\<lambda>b. Inr (str ''function Object() { [native code] }'')),
      builtin_to_number = (\<lambda>b. Inr NaN),
      builtin_for_each = (\<lambda>b. Inl TypeError),
      builtin_to_lower_case = (\<lambda>b. Inl TypeError),
      builtin_split = (\<lambda>b. Inl TypeError),
      builtin_stringify = (\<lambda>b. Inr None)\<rparr>"

section \<open>The hashtag contract in the words of the specification\<close>

text \<open>
  The specification's \<open>normalize_tag\<close> lower-cases a tag and removes every character that is
  not a lowercase letter (a to z) or a digit; a tag is mandatory when its normal form is
  that of one of the four fixed tags.
\<close>

definition normalize_tag :: "host \<Rightarrow> jsstring \<Rightarrow> jsstring" where
  "normalize_tag h tag =
     filter (\<lambda>u. (97 \<le> u \<and> u \<le> 122) \<or> (48 \<le> u \<and> u \<le> 57)) (to_lower_case h tag)"

definition mandatory_set :: "jsstring set" where
  "mandatory_set =
     {str ''#snssquare'', str ''#snsihub'', str ''#snsdesignthinking'', str ''#designthinkers''}"

text \<open>
  What every engine's \<^verbatim>\<open>toLowerCase\<close> does on a string of ASCII characters: the letters
  A to Z are lowered and nothing else changes.
\<close>

definition lowers_ascii :: "host \<Rightarrow> bool" where
  "lowers_ascii h = (\<forall>s. list_all (\<lambda>u. u < 128) s \<longrightarrow> to_lower_case h s = map ascii_lower s)"

section \<open>A page and a form to evaluate with\<close>

definition blank_page :: page where
  "blank_page =
     \<lparr>btnText = JStr (str ''Run QA''), btnSpinner_hidden = True,
      errorBox_text = JStr [], errorBox_hidden = True,
      resultEmpty_hidden = False, resultContent_hidden = True,
      overallScoreEl = \<lparr>textContent = JStr [], className = []\<rparr>,
      scoreSection = Some (str ''score-section''),
      scoreQualityEl = \<lparr>textContent = JStr [], className = []\<rparr>,
      scoreSeoEl = \<lparr>textContent = JStr [], className = []\<rparr>,
      scoreEngagementEl = \<lparr>textContent = JStr [], className = []\<rparr>,
      scoreStructureEl = \<lparr>textContent = JStr [], className = []\<rparr>,
      scoreBarFill_pending = [],
      issuesListEl = \<lparr>innerHTML = [], children = []\<rparr>,
      grammarSummaryEl = JStr [], toneSummaryEl = JStr [], ctaStatusEl = JStr [],
      tagsFinalEl = \<lparr>innerHTML = [], children = []\<rparr>,
      tagsTrendingEl = \<lparr>innerHTML = [], children = []\<rparr>,
      optimizedTitleEl = JStr [], optimizedContentEl = JStr [],
      ctaListEl = \<lparr>innerHTML = [], children = []\<rparr>\<rparr>"

definition blank_form :: form where
  "blank_form =
     \<lparr>platform_value = str ''instagram'', title_value = [], content_value = [],
      hashtags_value = [], geo_value = [], niche_value = [], target_audience_value = []\<rparr>"

section \<open>The names the script reads\<close>

text \<open>
  The property names the script reads from the payload and from what it holds.
  \<open>plain_prototypes h\<close> says that on the runtime \<open>h\<close> a decoded value inherits a
  member of none of these names: the read of one that is not an own property gives
  \<^verbatim>\<open>undefined\<close>, as it does in a browser whose built-in prototypes the page has not
  extended.
\<close>

definition script_keys :: "jsstring list" where
  "script_keys =
     [str ''raw_json'', str ''overall_score'', str ''scores_breakdown'', str ''quality_score'',
      str ''seo_score'', str ''engagement_score'', str ''structure_score'', str ''issues_found'',
      str ''issue'', str ''message'', str ''content_checks'', str ''grammar_summary'',
      str ''tone_summary'', str ''cta_status'', str ''hashtags'', str ''trending'',
      str ''final_output'', str ''final_hashtag_pack'', str ''optimized_title'',
      str ''optimized_content'', str ''improvements'', str ''cta_variants'', str ''tag'',
      str ''competition_level'', str ''detail'', str ''length'']"

definition plain_prototypes :: "host \<Rightarrow> bool" where
  "plain_prototypes h = (\<forall>v. list_all (\<lambda>k. inherited h v k = Inr JUndefined) script_keys)"

text \<open>The fields the rendering reads from the top of its payload.\<close>

definition top_level_keys :: "jsstring list" where
  "top_level_keys =
     [str ''raw_json'', str ''overall_score'', str ''scores_breakdown'', str ''issues_found'',
      str ''content_checks'', str ''hashtags'', str ''final_output'', str ''improvements'']"

section \<open>The four per-category score elements\<close>

definition score_elements :: "page \<Rightarrow> node \<times> node \<times> node \<times> node" where
  "score_elements p = (scoreQualityEl p, scoreSeoEl p, scoreEngagementEl p, scoreStructureEl p)"

section \<open>Score classifier: the bands\<close>

lemma getScoreClass_zero: "getScoreClass h (JNum (Finite 0)) = Inr (str ''poor'')"
  by (simp add: getScoreClass_def js_ge_def)

text \<open>
  Claim C1. On a number \<open>s\<close> the classifier depends on \<open>s\<close> alone (the runtime \<open>h\<close> plays
  no part, and nothing is thrown) and its bands are half-open: below 60 it gives
  \<^verbatim>\<open>poor\<close>, from 60 to below 75 \<^verbatim>\<open>average\<close>, from 75 to below 90 \<^verbatim>\<open>good\<close>, from 90 to 100
  \<^verbatim>\<open>excellent\<close>; the boundaries 60, 75 and 90 fall into the higher band. Negative
  infinity, the one number below 60 that is not finite, gives \<^verbatim>\<open>poor\<close> as well.
\<close>

theorem getScoreClass_bands:
  "(s < 60 \<longrightarrow> getScoreClass h (JNum (Finite s)) = Inr (str ''poor'')) \<and>
   (60 \<le> s \<and> s < 75 \<longrightarrow> getScoreClass h (JNum (Finite s)) = Inr (str ''average'')) \<and>
   (75 \<le> s \<and> s < 90 \<longrightarrow> getScoreClass h (JNum (Finite s)) = Inr (str ''good'')) \<and>
   (90 \<le> s \<and> s \<le> 100 \<longrightarrow> getScoreClass h (JNum (Finite s)) = Inr (str ''excellent'')) \<and>
   getScoreClass h (JNum (Finite 60)) = Inr (str ''average'') \<and>
   getScoreClass h (JNum (Finite 75)) = Inr (str ''good'') \<and>
   getScoreClass h (JNum (Finite 90)) = Inr (str ''excellent'') \<and>
   getScoreClass h (JNum NegInfinity) = Inr (str ''poor'')"
  by (simp add: getScoreClass_def js_ge_def)

theorem getScoreClass_bands_witness:
  "(59::real) < 60 \<and> getScoreClass simple_host (JNum (Finite 59)) = Inr (str ''poor'') \<and>
   (60::real) \<le> 60 \<and> (60::real) < 75 \<and>
   getScoreClass simple_host (JNum (Finite 60)) = Inr (str ''average'') \<and>
   (75::real) \<le> 80 \<and> (80::real) < 90 \<and>
   getScoreClass simple_host (JNum (Finite 80)) = Inr (str ''good'') \<and>
   (90::real) \<le> 100 \<and> (100::real) \<le> 100 \<and>
   getScoreClass simple_host (JNum (Finite 100)) = Inr (str ''excellent'')"
  using getScoreClass_bands [of 59 simple_host] getScoreClass_bands [of 60 simple_host]
    getScoreClass_bands [of 80 simple_host] getScoreClass_bands [of 100 simple_host]
  by simp

section \<open>Hashtag classifier: agreement with the specification\<close>

lemma replace_non_az09_filter: "replace_non_az09 s = filter in_az09 s"
  by (induction s) simp_all

lemma normalize_tag_eq: "normalize_tag h tag = replace_non_az09 (to_lower_case h tag)"
  by (simp add: normalize_tag_def replace_non_az09_filter in_az09_def [abs_def])

lemma isMandatoryHashtag_normalize:
  "isMandatoryHashtag h (JStr t) =
     Inr (\<exists>m \<in> mandatory_set. normalize_tag h t = normalize_tag h m)"
  by (simp add: isMandatoryHashtag_def toLowerCase_def mandatory_set_def
      MANDATORY_HASHTAGS_def normalize_tag_eq Let_def eq_commute)

lemma lowers_ascii_simple_host: "lowers_ascii simple_host"
  by (simp add: lowers_ascii_def simple_host_def)

lemma normalize_tag_ascii:
  "lowers_ascii h \<Longrightarrow> list_all (\<lambda>u. u < 128) s \<Longrightarrow>
   normalize_tag h s = replace_non_az09 (map ascii_lower s)"
  by (simp add: lowers_ascii_def normalize_tag_eq)

text \<open>
  Claim C2. For every tag string \<open>t\<close> the predicate of the source returns true exactly when
  the normal form of \<open>t\<close> (lower-cased, every character other than a to z and 0 to 9
  removed) is the normal form of one of the four mandatory tags. On a runtime that
  lower-cases ASCII as every engine does, \<^verbatim>\<open>"#SNSSquare!"\<close>, \<^verbatim>\<open>"sns square"\<close> and
  \<^verbatim>\<open>"#snssquare"\<close> are mandatory and \<^verbatim>\<open>"#snsx"\<close> is not.
\<close>

theorem isMandatoryHashtag_iff:
  "isMandatoryHashtag h (JStr t) =
     Inr (\<exists>m \<in> mandatory_set. normalize_tag h t = normalize_tag h m) \<and>
   (lowers_ascii h \<longrightarrow>
      isMandatoryHashtag h (JStr (str ''#SNSSquare!'')) = Inr True \<and>
      isMandatoryHashtag h (JStr (str ''sns square'')) = Inr True \<and>
      isMandatoryHashtag h (JStr (str ''#snssquare'')) = Inr True \<and>
      isMandatoryHashtag h (JStr (str ''#snsx'')) = Inr False)"
proof (intro conjI impI)
  show "isMandatoryHashtag h (JStr t) =
      Inr (\<exists>m \<in> mandatory_set. normalize_tag h t = normalize_tag h m)"
    by (rule isMandatoryHashtag_normalize)
next
  assume l: "lowers_ascii h"
  have n1: "normalize_tag h (str ''#snssquare'') = str ''snssquare''"
    by (subst normalize_tag_ascii [OF l]) (simp_all add: ascii_lower_def in_az09_def)
  have n2: "normalize_tag h (str ''#snsihub'') = str ''snsihub''"
    by (subst normalize_tag_ascii [OF l]) (simp_all add: ascii_lower_def in_az09_def)
  have n3: "normalize_tag h (str ''#snsdesignthinking'') = str ''snsdesignthinking''"
    by (subst normalize_tag_ascii [OF l]) (simp_all add: ascii_lower_def in_az09_def)
  have n4: "normalize_tag h (str ''#designthinkers'') = str ''designthinkers''"
    by (subst normalize_tag_ascii [OF l]) (simp_all add: ascii_lower_def in_az09_def)
  have e1: "normalize_tag h (str ''#SNSSquare!'') = str ''snssquare''"
    by (subst normalize_tag_ascii [OF l]) (simp_all add: ascii_lower_def in_az09_def)
  have e2: "normalize_tag h (str ''sns square'') = str ''snssquare''"
    by (subst normalize_tag_ascii [OF l]) (simp_all add: ascii_lower_def in_az09_def)
  have e4: "normalize_tag h (str ''#snsx'') = str ''snsx''"
    by (subst normalize_tag_ascii [OF l]) (simp_all add: ascii_lower_def in_az09_def)
  have m: "\<And>t. isMandatoryHashtag h (JStr t) =
      Inr (normalize_tag h t \<in> {str ''snssquare'', str ''snsihub'', str ''snsdesignthinking'',
                                  str ''designthinkers''})"
    by (simp only: isMandatoryHashtag_normalize mandatory_set_def bex_simps
        insert_iff empty_iff n1 n2 n3 n4)
  show "isMandatoryHashtag h (JStr (str ''#SNSSquare!'')) = Inr True"
    unfolding m e1 by simp
  show "isMandatoryHashtag h (JStr (str ''sns square'')) = Inr True"
    unfolding m e2 by simp
  show "isMandatoryHashtag h (JStr (str ''#snssquare'')) = Inr True"
    unfolding m n1 by simp
  show "isMandatoryHashtag h (JStr (str ''#snsx'')) = Inr False"
    unfolding m e4 by simp
qed

theorem isMandatoryHashtag_iff_witness:
  "lowers_ascii simple_host \<and>
   isMandatoryHashtag simple_host (JStr (str ''sns-square'')) =
     Inr (\<exists>m \<in> mandatory_set.
            normalize_tag simple_host (str ''sns-square'') = normalize_tag simple_host m) \<and>
   isMandatoryHashtag simple_host (JStr (str ''#SNSSquare!'')) = Inr True \<and>
   isMandatoryHashtag simple_host (JStr (str ''#snsx'')) = Inr False"
  using isMandatoryHashtag_iff [of simple_host "str ''sns-square''"] lowers_ascii_simple_host
  by simp

section \<open>Safe path resolver: the reduction and optional chaining\<close>

lemma truthy_not_nullish: "truthy v \<Longrightarrow> \<not> nullish v"
  by (cases v) auto

lemma reduce_path_falsy:
  "\<not> truthy acc \<Longrightarrow> keys \<noteq> [] \<Longrightarrow> reduce_path h acc keys = Inr JUndefined"
proof (induction keys arbitrary: acc)
  case Nil
  then show ?case by simp
next
  case (Cons key keys)
  show ?case
  proof (cases keys)
    case Nil
    with Cons.prems show ?thesis by simp
  next
    case (Cons k ks)
    have "reduce_path h JUndefined keys = Inr JUndefined"
      by (rule Cons.IH) (simp_all add: Cons)
    with Cons.prems show ?thesis by simp
  qed
qed

lemma chain_undefined: "chain h JUndefined ks = Inr JUndefined"
  by (cases ks) simp_all


text \<open>A falsy value before the last key ends the reduction with \<^verbatim>\<open>undefined\<close>.\<close>

lemma reduce_path_short_circuit:
  "n < length keys \<Longrightarrow> chain h obj (take n keys) = Inr v \<Longrightarrow> \<not> truthy v \<Longrightarrow>
   reduce_path h obj keys = Inr JUndefined"
proof (induction keys arbitrary: obj n)
  case Nil
  then show ?case by simp
next
  case (Cons key keys)
  show ?case
  proof (cases "truthy obj")
    case False
    then show ?thesis by (rule reduce_path_falsy) simp
  next
    case True
    then have nn: "\<not> nullish obj" by (rule truthy_not_nullish)
    from True Cons.prems obtain m where n: "n = Suc m" by (cases n) auto
    with Cons.prems nn obtain obj' where g: "get_prop h obj key = Inr obj'"
      and c: "chain h obj' (take m keys) = Inr v"
      by (cases "get_prop h obj key") auto
    from n Cons.prems have "m < length keys" by simp
    then have "reduce_path h obj' keys = Inr JUndefined"
      using c Cons.prems(3) by (rule Cons.IH)
    then show ?thesis using True g by simp
  qed
qed




lemma safeGet_string:
  "safeGet h obj (JStr p) fb =
     (case reduce_path h obj (split_on 46 p) of
        Inl e \<Rightarrow> default_null fb
      | Inr v \<Rightarrow> nullish_or v (default_null fb))"
  by (simp add: safeGet_def safeGet_try_def split_path_def Let_def split: sum.splits)

lemma simple_host_fields:
  "inherited simple_host v k =
     (case v of
        JObj kvs \<Rightarrow> if k = str ''constructor'' then Inr (JBuiltin 0) else Inr JUndefined
      | _ \<Rightarrow> Inr JUndefined)"
  "builtin_get simple_host b k =
     (if b = 0 \<and> k = str ''name'' then Inr (JStr (str ''Object'')) else Inr JUndefined)"
  "builtin_split simple_host b = Inl TypeError"
  by (simp_all add: simple_host_def)

lemma plain_prototypes_simple_host: "plain_prototypes simple_host"
  by (simp add: plain_prototypes_def script_keys_def simple_host_def split: jsval.splits)



text \<open>
  Claim C10. A value that is falsy without being \<^verbatim>\<open>null\<close> or \<^verbatim>\<open>undefined\<close> (\<^verbatim>\<open>0\<close>, \<^verbatim>\<open>""\<close>,
  \<^verbatim>\<open>false\<close>, NaN), met before the last segment of the path, ends the traversal and the
  resolver returns the fallback, also when the rest of the path exists on that value:
  \<^verbatim>\<open>"a.length"\<close> on \<^verbatim>\<open>{a:""}\<close> gives the fallback, although \<^verbatim>\<open>"".length\<close> is \<^verbatim>\<open>0\<close>.
\<close>

theorem safeGet_falsy_segment:
  "(n < length (split_on 46 p) \<and> chain h obj (take n (split_on 46 p)) = Inr v \<and>
    \<not> truthy v \<and> \<not> nullish v \<longrightarrow>
      safeGet h obj (JStr p) fb = default_null fb) \<and>
   chain h (JObj [(str ''a'', JStr [])]) (split_on 46 (str ''a.length'')) = Inr (JNum (Finite 0)) \<and>
   safeGet h (JObj [(str ''a'', JStr [])]) (JStr (str ''a.length'')) fb = default_null fb"
proof (intro conjI impI)
  assume "n < length (split_on 46 p) \<and> chain h obj (take n (split_on 46 p)) = Inr v \<and>
    \<not> truthy v \<and> \<not> nullish v"
  then have "reduce_path h obj (split_on 46 p) = Inr JUndefined"
    using reduce_path_short_circuit by blast
  then show "safeGet h obj (JStr p) fb = default_null fb"
    by (simp add: safeGet_string nullish_or_def)
next
  show "chain h (JObj [(str ''a'', JStr [])]) (split_on 46 (str ''a.length'')) =
      Inr (JNum (Finite 0))"
    by (simp add: get_prop_def)
next
  show "safeGet h (JObj [(str ''a'', JStr [])]) (JStr (str ''a.length'')) fb = default_null fb"
    by (simp add: safeGet_string get_prop_def nullish_or_def)
qed

theorem safeGet_falsy_segment_witness:
  "1 < length (split_on 46 (str ''a.length'')) \<and>
   chain simple_host (JObj [(str ''a'', JStr [])]) (take 1 (split_on 46 (str ''a.length''))) =
     Inr (JStr []) \<and>
   \<not> truthy (JStr []) \<and> \<not> nullish (JStr []) \<and>
   safeGet simple_host (JObj [(str ''a'', JStr [])]) (JStr (str ''a.length'')) (JNum (Finite 7)) =
     JNum (Finite 7)"
  using safeGet_falsy_segment [of 1 "str ''a.length''" simple_host "JObj [(str ''a'', JStr [])]"
          "JStr []" "JNum (Finite 7)"]
  by (simp add: default_null_def get_prop_def)

section \<open>Rendering a payload without fields\<close>

lemma container_reset:
  "c\<lparr>innerHTML := a, children := b\<rparr> = \<lparr>innerHTML = a, children = b\<rparr>"
  "c\<lparr>children := b, innerHTML := a\<rparr> = \<lparr>innerHTML = a, children = b\<rparr>"
  by (cases c, simp)+

lemma node_reset:
  "n\<lparr>textContent := a, className := b\<rparr> = \<lparr>textContent = a, className = b\<rparr>"
  "n\<lparr>className := b, textContent := a\<rparr> = \<lparr>textContent = a, className = b\<rparr>"
  by (cases n, simp)+

text \<open>
  A payload that is an object with none of the fields the rendering reads from its top
  level, on a runtime where none of them is inherited, is rendered without an exception as
  the page of placeholders.
\<close>

lemma render_absent_page:
  assumes "plain_prototypes h" "list_all (\<lambda>k. map_of kvs k = None) top_level_keys"
  shows \<open>render_result h (JObj kvs) p =
     (p\<lparr>resultEmpty_hidden := True,
        resultContent_hidden := False,
        overallScoreEl := \<lparr>textContent = JNum (Finite 0), className = str ''score-big poor''\<rparr>,
        scoreSection :=
          (case scoreSection p of None \<Rightarrow> None | Some c \<Rightarrow> Some (str ''score-section poor'')),
        scoreQualityEl := \<lparr>textContent = JStr [8211], className = str ''score-value poor''\<rparr>,
        scoreSeoEl := \<lparr>textContent = JStr [8211], className = str ''score-value poor''\<rparr>,
        scoreEngagementEl := \<lparr>textContent = JStr [8211], className = str ''score-value poor''\<rparr>,
        scoreStructureEl := \<lparr>textContent = JStr [8211], className = str ''score-value poor''\<rparr>,
        scoreBarFill_pending := scoreBarFill_pending p @ [JNum (Finite 0)],
        issuesListEl :=
          \<lparr>innerHTML = str ''<li class="muted">No major issues found.</li>'', children = []\<rparr>,
        grammarSummaryEl := JStr (str ''Grammar: N/A''),
        toneSummaryEl := JStr (str ''Tone: N/A''),
        ctaStatusEl := JStr (str ''CTA: N/A''),
        tagsFinalEl := \<lparr>innerHTML = str ''<span class="muted">None</span>'', children = []\<rparr>,
        tagsTrendingEl := \<lparr>innerHTML = str ''<span class="muted">None</span>'', children = []\<rparr>,
        optimizedTitleEl := JStr [],
        optimizedContentEl := JStr [],
        ctaListEl :=
          \<lparr>innerHTML = str ''<li class="muted">No CTA variants returned.</li>'',
           children = []\<rparr>\<rparr>,
      None)\<close>
  using assms
  by (simp add: plain_prototypes_def script_keys_def top_level_keys_def
      render_result_def normalized_def render_from_def render_scores_def
      render_overall_def render_breakdown_def render_score_def schedule_score_bar_def
      score_placeholder_def render_issues_def render_checks_def render_check_def check_line_def
      render_hashtags_def renderChips_def render_optimized_def render_ctas_def
      safeGet_def safeGet_try_def split_path_def default_null_def
      reading_def and_then_def writing_def get_prop_def js_or_def nullish_or_def
      getScoreClass_zero container_reset node_reset Let_def
      split: option.splits)

text \<open>
  The rendering does throw on other payloads. The body \<^verbatim>\<open>null\<close> is valid JSON, and
  \<^verbatim>\<open>data.raw_json\<close> throws on it before anything is written. A non-empty string under
  \<^verbatim>\<open>issues_found\<close> has a truthy \<^verbatim>\<open>length\<close> and no \<^verbatim>\<open>forEach\<close>: the scores are written and
  the issue list is emptied before the \<^verbatim>\<open>TypeError\<close>. The handler's \<^verbatim>\<open>catch\<close> reports
  either.
\<close>

lemma render_null: "render_result h JNull p = (p, Some TypeError)"
  by (simp add: render_result_def normalized_def reading_def get_prop_def)

lemma render_string_issues:
  "plain_prototypes h \<Longrightarrow>
   snd (render_result h (JObj [(str ''issues_found'', JStr (str ''x''))]) p) = Some TypeError"
  by (simp add: plain_prototypes_def script_keys_def
      render_result_def normalized_def render_from_def render_scores_def
      render_overall_def render_breakdown_def render_score_def schedule_score_bar_def
      render_issues_def elements_def getScoreClass_zero
      reading_def and_then_def writing_def get_prop_def js_or_def nullish_or_def Let_def
      split: option.splits)

text \<open>
  Claim C4, as stated, fails: the rendering of a response is not total. On the payload
  \<^verbatim>\<open>null\<close> and on the payload \<^verbatim>\<open>{issues_found:"x"}\<close> it ends with a \<^verbatim>\<open>TypeError\<close>.
\<close>

theorem normalizer_not_total_counterexample:
  "render_result simple_host JNull blank_page = (blank_page, Some TypeError) \<and>
   snd (render_result simple_host (JObj [(str ''issues_found'', JStr (str ''x''))]) blank_page) =
     Some TypeError"
  using render_null [of simple_host blank_page]
    render_string_issues [OF plain_prototypes_simple_host, of blank_page]
  by (intro conjI)

text \<open>
  Claim C4, amended. The rendering of a response is total on the payloads without fields,
  not on all payloads. On a runtime whose prototypes have no member named like a field of
  the response, a payload that is an object with none of the top-level fields (\<^verbatim>\<open>{}\<close> is
  one) is rendered with no exception, whatever the page: the overall score is \<^verbatim>\<open>0\<close>, the
  issue list holds the marker \<^verbatim>\<open>No major issues found.\<close>, both hashtag groups hold the
  placeholder \<^verbatim>\<open>None\<close>, the list of calls to action holds \<^verbatim>\<open>No CTA variants returned.\<close>,
  and every other element holds its placeholder too. On the payloads \<^verbatim>\<open>null\<close> and
  \<^verbatim>\<open>undefined\<close> the rendering throws a \<^verbatim>\<open>TypeError\<close> and writes nothing.
\<close>

theorem render_result_empty_object:
  \<open>(plain_prototypes h \<and> list_all (\<lambda>k. map_of kvs k = None) top_level_keys \<longrightarrow>
    render_result h (JObj kvs) p =
     (p\<lparr>resultEmpty_hidden := True,
        resultContent_hidden := False,
        overallScoreEl := \<lparr>textContent = JNum (Finite 0), className = str ''score-big poor''\<rparr>,
        scoreSection :=
          (case scoreSection p of None \<Rightarrow> None | Some c \<Rightarrow> Some (str ''score-section poor'')),
        scoreQualityEl := \<lparr>textContent = JStr [8211], className = str ''score-value poor''\<rparr>,
        scoreSeoEl := \<lparr>textContent = JStr [8211], className = str ''score-value poor''\<rparr>,
        scoreEngagementEl := \<lparr>textContent = JStr [8211], className = str ''score-value poor''\<rparr>,
        scoreStructureEl := \<lparr>textContent = JStr [8211], className = str ''score-value poor''\<rparr>,
        scoreBarFill_pending := scoreBarFill_pending p @ [JNum (Finite 0)],
        issuesListEl :=
          \<lparr>innerHTML = str ''<li class="muted">No major issues found.</li>'', children = []\<rparr>,
        grammarSummaryEl := JStr (str ''Grammar: N/A''),
        toneSummaryEl := JStr (str ''Tone: N/A''),
        ctaStatusEl := JStr (str ''CTA: N/A''),
        tagsFinalEl := \<lparr>innerHTML = str ''<span class="muted">None</span>'', children = []\<rparr>,
        tagsTrendingEl := \<lparr>innerHTML = str ''<span class="muted">None</span>'', children = []\<rparr>,
        optimizedTitleEl := JStr [],
        optimizedContentEl := JStr [],
        ctaListEl :=
          \<lparr>innerHTML = str ''<li class="muted">No CTA variants returned.</li>'',
           children = []\<rparr>\<rparr>,
      None)) \<and>
   (plain_prototypes h \<longrightarrow>
      snd (render_result h (JObj []) p) = None \<and>
      overallScoreEl (fst (render_result h (JObj []) p)) =
        \<lparr>textContent = JNum (Finite 0), className = str ''score-big poor''\<rparr> \<and>
      issuesListEl (fst (render_result h (JObj []) p)) =
        \<lparr>innerHTML = str ''<li class="muted">No major issues found.</li>'', children = []\<rparr> \<and>
      tagsFinalEl (fst (render_result h (JObj []) p)) =
        \<lparr>innerHTML = str ''<span class="muted">None</span>'', children = []\<rparr> \<and>
      tagsTrendingEl (fst (render_result h (JObj []) p)) =
        \<lparr>innerHTML = str ''<span class="muted">None</span>'', children = []\<rparr> \<and>
      ctaListEl (fst (render_result h (JObj []) p)) =
        \<lparr>innerHTML = str ''<li class="muted">No CTA variants returned.</li>'',
         children = []\<rparr>) \<and>
   render_result h JNull p = (p, Some TypeError) \<and>
   render_result h JUndefined p = (p, Some TypeError)\<close>
proof (intro conjI impI)
  assume "plain_prototypes h \<and> list_all (\<lambda>k. map_of kvs k = None) top_level_keys"
  then show \<open>render_result h (JObj kvs) p =
     (p\<lparr>resultEmpty_hidden := True,
        resultContent_hidden := False,
        overallScoreEl := \<lparr>textContent = JNum (Finite 0), className = str ''score-big poor''\<rparr>,
        scoreSection :=
          (case scoreSection p of None \<Rightarrow> None | Some c \<Rightarrow> Some (str ''score-section poor'')),
        scoreQualityEl := \<lparr>textContent = JStr [8211], className = str ''score-value poor''\<rparr>,
        scoreSeoEl := \<lparr>textContent = JStr [8211], className = str ''score-value poor''\<rparr>,
        scoreEngagementEl := \<lparr>textContent = JStr [8211], className = str ''score-value poor''\<rparr>,
        scoreStructureEl := \<lparr>textContent = JStr [8211], className = str ''score-value poor''\<rparr>,
        scoreBarFill_pending := scoreBarFill_pending p @ [JNum (Finite 0)],
        issuesListEl :=
          \<lparr>innerHTML = str ''<li class="muted">No major issues found.</li>'', children = []\<rparr>,
        grammarSummaryEl := JStr (str ''Grammar: N/A''),
        toneSummaryEl := JStr (str ''Tone: N/A''),
        ctaStatusEl := JStr (str ''CTA: N/A''),
        tagsFinalEl := \<lparr>innerHTML = str ''<span class="muted">None</span>'', children = []\<rparr>,
        tagsTrendingEl := \<lparr>innerHTML = str ''<span class="muted">None</span>'', children = []\<rparr>,
        optimizedTitleEl := JStr [],
        optimizedContentEl := JStr [],
        ctaListEl :=
          \<lparr>innerHTML = str ''<li class="muted">No CTA variants returned.</li>'',
           children = []\<rparr>\<rparr>,
      None)\<close>
    using render_absent_page [of h kvs p] by blast
next
  assume a: "plain_prototypes h"
  have e: "list_all (\<lambda>k. map_of ([] :: (jsstring \<times> jsval) list) k = None) top_level_keys"
    by (simp add: top_level_keys_def)
  note r = render_absent_page [OF a e, of p]
  show "snd (render_result h (JObj []) p) = None" unfolding r by simp
  show "overallScoreEl (fst (render_result h (JObj []) p)) =
        \<lparr>textContent = JNum (Finite 0), className = str ''score-big poor''\<rparr>"
    unfolding r by simp
  show \<open>issuesListEl (fst (render_result h (JObj []) p)) =
        \<lparr>innerHTML = str ''<li class="muted">No major issues found.</li>'', children = []\<rparr>\<close>
    unfolding r by simp
  show \<open>tagsFinalEl (fst (render_result h (JObj []) p)) =
        \<lparr>innerHTML = str ''<span class="muted">None</span>'', children = []\<rparr>\<close>
    unfolding r by simp
  show \<open>tagsTrendingEl (fst (render_result h (JObj []) p)) =
        \<lparr>innerHTML = str ''<span class="muted">None</span>'', children = []\<rparr>\<close>
    unfolding r by simp
  show \<open>ctaListEl (fst (render_result h (JObj []) p)) =
        \<lparr>innerHTML = str ''<li class="muted">No CTA variants returned.</li>'',
         children = []\<rparr>\<close>
    unfolding r by simp
next
  show "render_result h JNull p = (p, Some TypeError)" by (rule render_null)
next
  show "render_result h JUndefined p = (p, Some TypeError)"
    by (simp add: render_result_def normalized_def reading_def get_prop_def)
qed

theorem render_result_empty_object_witness:
  \<open>plain_prototypes simple_host \<and>
   list_all (\<lambda>k. map_of [(str ''status'', JStr (str ''ok''))] k = None) top_level_keys \<and>
   render_result simple_host (JObj [(str ''status'', JStr (str ''ok''))]) blank_page =
     (blank_page\<lparr>resultEmpty_hidden := True,
        resultContent_hidden := False,
        overallScoreEl := \<lparr>textContent = JNum (Finite 0), className = str ''score-big poor''\<rparr>,
        scoreSection := Some (str ''score-section poor''),
        scoreQualityEl := \<lparr>textContent = JStr [8211], className = str ''score-value poor''\<rparr>,
        scoreSeoEl := \<lparr>textContent = JStr [8211], className = str ''score-value poor''\<rparr>,
        scoreEngagementEl := \<lparr>textContent = JStr [8211], className = str ''score-value poor''\<rparr>,
        scoreStructureEl := \<lparr>textContent = JStr [8211], className = str ''score-value poor''\<rparr>,
        scoreBarFill_pending := [JNum (Finite 0)],
        issuesListEl :=
          \<lparr>innerHTML = str ''<li class="muted">No major issues found.</li>'', children = []\<rparr>,
        grammarSummaryEl := JStr (str ''Grammar: N/A''),
        toneSummaryEl := JStr (str ''Tone: N/A''),
        ctaStatusEl := JStr (str ''CTA: N/A''),
        tagsFinalEl := \<lparr>innerHTML = str ''<span class="muted">None</span>'', children = []\<rparr>,
        tagsTrendingEl := \<lparr>innerHTML = str ''<span class="muted">None</span>'', children = []\<rparr>,
        optimizedTitleEl := JStr [],
        optimizedContentEl := JStr [],
        ctaListEl :=
          \<lparr>innerHTML = str ''<li class="muted">No CTA variants returned.</li>'',
           children = []\<rparr>\<rparr>,
      None) \<and>
   snd (render_result simple_host (JObj []) blank_page) = None \<and>
   overallScoreEl (fst (render_result simple_host (JObj []) blank_page)) =
     \<lparr>textContent = JNum (Finite 0), className = str ''score-big poor''\<rparr>\<close>
proof -
  have a: "plain_prototypes simple_host" by (rule plain_prototypes_simple_host)
  have b: "list_all (\<lambda>k. map_of [(str ''status'', JStr (str ''ok''))] k = None) top_level_keys"
    by (simp add: top_level_keys_def)
  note k = render_result_empty_object
    [where h = simple_host and kvs = "[(str ''status'', JStr (str ''ok''))]" and p = blank_page]
  note 1 = k [THEN conjunct1, THEN mp, OF conjI, OF a b]
  note 2 = k [THEN conjunct2, THEN conjunct1, THEN mp, OF a]
  have s: "scoreSection blank_page = Some (str ''score-section'')"
    "scoreBarFill_pending blank_page = []"
    by (simp_all add: blank_page_def)
  show ?thesis
    using a b 1 2 by (simp add: s)
qed

section \<open>Issue entries\<close>







section \<open>The \<^verbatim>\<open>raw_json\<close> wrapper\<close>

text \<open>
  Claim C6, as stated, fails: the payloads \<^verbatim>\<open>{raw_json:null, overall_score:95}\<close> and
  \<^verbatim>\<open>{raw_json:0, overall_score:95}\<close> contain a \<^verbatim>\<open>raw_json\<close> field and are rendered from
  their top level.
\<close>

theorem raw_json_null_counterexample:
  "normalized simple_host
     (JObj [(str ''raw_json'', JNull), (str ''overall_score'', JNum (Finite 95))]) =
     Inr (JObj [(str ''raw_json'', JNull), (str ''overall_score'', JNum (Finite 95))]) \<and>
   normalized simple_host
     (JObj [(str ''raw_json'', JNum (Finite 0)), (str ''overall_score'', JNum (Finite 95))]) =
     Inr (JObj [(str ''raw_json'', JNum (Finite 0)), (str ''overall_score'', JNum (Finite 95))])"
  by (simp add: normalized_def get_prop_def js_or_def)

text \<open>
  Claim C6, amended. The response is rendered from the value of \<^verbatim>\<open>data.raw_json\<close> when
  that value is truthy (an object, an array, but also \<^verbatim>\<open>true\<close>, a number other than \<^verbatim>\<open>0\<close>
  and NaN, or a non-empty string), and from the payload itself when it is falsy: when the
  field is absent and not inherited, and also when it holds \<^verbatim>\<open>null\<close>, \<^verbatim>\<open>false\<close>, \<^verbatim>\<open>0\<close>, NaN
  or \<^verbatim>\<open>""\<close>. On the payloads \<^verbatim>\<open>null\<close> and \<^verbatim>\<open>undefined\<close> the read throws a \<^verbatim>\<open>TypeError\<close>.
\<close>

theorem raw_json_precedence:
  "(nullish data \<longrightarrow> normalized h data = Inl TypeError) \<and>
   (\<not> nullish data \<and> get_prop h data (str ''raw_json'') = Inr r \<and> truthy r \<longrightarrow>
      normalized h data = Inr r \<and> render_result h data p = render_from h r p) \<and>
   (\<not> nullish data \<and> get_prop h data (str ''raw_json'') = Inr r \<and> \<not> truthy r \<longrightarrow>
      normalized h data = Inr data \<and> render_result h data p = render_from h data p) \<and>
   (map_of kvs (str ''raw_json'') = Some r \<longrightarrow>
      get_prop h (JObj kvs) (str ''raw_json'') = Inr r) \<and>
   (map_of kvs (str ''raw_json'') = None \<and> plain_prototypes h \<longrightarrow>
      get_prop h (JObj kvs) (str ''raw_json'') = Inr JUndefined) \<and>
   truthy (JObj fs) \<and> truthy (JArr ys) \<and> truthy (JBool True) \<and>
   truthy (JNum (Finite 5)) \<and> truthy (JStr (str ''s'')) \<and>
   \<not> truthy JUndefined \<and> \<not> truthy JNull \<and> \<not> truthy (JBool False) \<and>
   \<not> truthy (JNum (Finite 0)) \<and> \<not> truthy (JStr [])"
  by (auto simp: normalized_def render_result_def reading_def get_prop_def js_or_def
      plain_prototypes_def script_keys_def)

theorem raw_json_precedence_witness:
  "nullish JNull \<and> normalized simple_host JNull = Inl TypeError \<and>
   \<not> nullish (JObj [(str ''overall_score'', JNum (Finite 10)),
                    (str ''raw_json'', JObj [(str ''overall_score'', JNum (Finite 95))])]) \<and>
   map_of [(str ''overall_score'', JNum (Finite 10)),
           (str ''raw_json'', JObj [(str ''overall_score'', JNum (Finite 95))])] (str ''raw_json'') =
     Some (JObj [(str ''overall_score'', JNum (Finite 95))]) \<and>
   get_prop simple_host
     (JObj [(str ''overall_score'', JNum (Finite 10)),
            (str ''raw_json'', JObj [(str ''overall_score'', JNum (Finite 95))])])
     (str ''raw_json'') = Inr (JObj [(str ''overall_score'', JNum (Finite 95))]) \<and>
   truthy (JObj [(str ''overall_score'', JNum (Finite 95))]) \<and>
   normalized simple_host
     (JObj [(str ''overall_score'', JNum (Finite 10)),
            (str ''raw_json'', JObj [(str ''overall_score'', JNum (Finite 95))])]) =
     Inr (JObj [(str ''overall_score'', JNum (Finite 95))]) \<and>
   \<not> nullish (JObj [(str ''overall_score'', JNum (Finite 10))]) \<and>
   map_of [(str ''overall_score'', JNum (Finite 10))] (str ''raw_json'') = None \<and>
   plain_prototypes simple_host \<and>
   get_prop simple_host (JObj [(str ''overall_score'', JNum (Finite 10))]) (str ''raw_json'') =
     Inr JUndefined \<and>
   \<not> truthy JUndefined \<and>
   normalized simple_host (JObj [(str ''overall_score'', JNum (Finite 10))]) =
     Inr (JObj [(str ''overall_score'', JNum (Finite 10))])"
proof -
  let ?w = "JObj [(str ''overall_score'', JNum (Finite 10)),
                  (str ''raw_json'', JObj [(str ''overall_score'', JNum (Finite 95))])]"
  let ?r = "JObj [(str ''overall_score'', JNum (Finite 95))]"
  let ?t = "JObj [(str ''overall_score'', JNum (Finite 10))]"
  note a = raw_json_precedence [where h = simple_host and data = JNull and kvs = "[]"
      and r = JNull and p = blank_page and fs = "[]" and ys = "[]"]
  note b = raw_json_precedence [where h = simple_host and data = ?w
      and kvs = "[(str ''overall_score'', JNum (Finite 10)), (str ''raw_json'', ?r)]"
      and r = ?r and p = blank_page and fs = "[]" and ys = "[]"]
  note c = raw_json_precedence [where h = simple_host and data = ?t
      and kvs = "[(str ''overall_score'', JNum (Finite 10))]"
      and r = JUndefined and p = blank_page and fs = "[]" and ys = "[]"]
  have 1: "normalized simple_host JNull = Inl TypeError"
    using a by simp
  have m: "map_of [(str ''overall_score'', JNum (Finite 10)), (str ''raw_json'', ?r)]
      (str ''raw_json'') = Some ?r" by simp
  have 2: "get_prop simple_host ?w (str ''raw_json'') = Inr ?r"
    using b m by blast
  have 3: "normalized simple_host ?w = Inr ?r"
    using b 2 by simp
  have m': "map_of [(str ''overall_score'', JNum (Finite 10))] (str ''raw_json'') = None" by simp
  have 4: "get_prop simple_host ?t (str ''raw_json'') = Inr JUndefined"
    using c m' plain_prototypes_simple_host by blast
  have 5: "normalized simple_host ?t = Inr ?t"
    using c 4 by simp
  show ?thesis
    using 1 m 2 3 m' 4 5 plain_prototypes_simple_host by simp
qed

section \<open>Per-category scores\<close>

text \<open>
  The groups of statements after the scores leave the four score elements alone, whether
  they end normally or with an exception.
\<close>

lemma and_then_frame:
  assumes "\<And>p. score_elements (fst (f p)) = score_elements p"
    and "\<And>p. score_elements (fst (g p)) = score_elements p"
  shows "score_elements (fst (and_then f g p)) = score_elements p"
proof (cases "f p")
  case (Pair p' e)
  with assms(1) [of p] have p': "score_elements p' = score_elements p" by simp
  show ?thesis
  proof (cases e)
    case None
    with Pair p' assms(2) [of p'] show ?thesis by (simp add: and_then_def)
  next
    case (Some x)
    with Pair p' show ?thesis by (simp add: and_then_def)
  qed
qed

lemma reading_frame:
  assumes "\<And>v p. score_elements (fst (f v p)) = score_elements p"
  shows "score_elements (fst (reading r f p)) = score_elements p"
  using assms by (cases r) (simp_all add: reading_def)

lemma writing_frame:
  assumes "\<And>p. score_elements (f p) = score_elements p"
  shows "score_elements (fst (writing f p)) = score_elements p"
  using assms by (simp add: writing_def)

lemma render_issues_frame: "score_elements (fst (render_issues h result p)) = score_elements p"
  unfolding render_issues_def Let_def
  by (intro reading_frame and_then_frame writing_frame)
     (auto simp: score_elements_def writing_def reading_def split: prod.splits sum.splits)

lemma render_check_frame:
  "el = grammarSummaryEl_update \<or> el = toneSummaryEl_update \<or> el = ctaStatusEl_update \<Longrightarrow>
   score_elements (fst (render_check h el checks key prefix p)) = score_elements p"
  unfolding render_check_def
  by (intro reading_frame writing_frame) (auto simp: score_elements_def)

lemma render_checks_frame: "score_elements (fst (render_checks h result p)) = score_elements p"
  unfolding render_checks_def Let_def
  by (intro reading_frame and_then_frame render_check_frame) simp_all

lemma render_hashtags_frame:
  "score_elements (fst (render_hashtags h result p)) = score_elements p"
  unfolding render_hashtags_def Let_def
  by (intro reading_frame and_then_frame writing_frame)
     (auto simp: score_elements_def split: prod.splits)

lemma render_optimized_frame:
  "score_elements (fst (render_optimized h result p)) = score_elements p"
  unfolding render_optimized_def Let_def
  by (intro reading_frame and_then_frame writing_frame) (simp_all add: score_elements_def)

lemma render_ctas_frame: "score_elements (fst (render_ctas h result p)) = score_elements p"
  unfolding render_ctas_def Let_def
  by (intro reading_frame and_then_frame writing_frame)
     (auto simp: score_elements_def writing_def reading_def split: prod.splits sum.splits)

lemma render_rest_frame:
  "score_elements (fst ((and_then (render_issues h result)
      (and_then (render_checks h result)
      (and_then (render_hashtags h result)
      (and_then (render_optimized h result) (render_ctas h result))))) p)) = score_elements p"
  by (intro and_then_frame render_issues_frame render_checks_frame render_hashtags_frame
      render_optimized_frame render_ctas_frame)

lemma and_then_writing: "and_then (writing f) g p = g (f p)"
  by (simp add: and_then_def writing_def)

lemma and_then_done: "f p = (p', None) \<Longrightarrow> and_then f g p = g p'"
  by (simp add: and_then_def)

lemma render_scores_elements:
  assumes "get_prop h result (str ''overall_score'') = Inr ov"
    "getScoreClass h (nullish_or ov (JNum (Finite 0))) = Inr co"
    "get_prop h result (str ''scores_breakdown'') = Inr sb"
    "get_prop h (js_or sb (JObj [])) (str ''quality_score'') = Inr q"
    "getScoreClass h (nullish_or q (JNum (Finite 0))) = Inr cq"
    "get_prop h (js_or sb (JObj [])) (str ''seo_score'') = Inr s"
    "getScoreClass h (nullish_or s (JNum (Finite 0))) = Inr cs"
    "get_prop h (js_or sb (JObj [])) (str ''engagement_score'') = Inr g"
    "getScoreClass h (nullish_or g (JNum (Finite 0))) = Inr cg"
    "get_prop h (js_or sb (JObj [])) (str ''structure_score'') = Inr t"
    "getScoreClass h (nullish_or t (JNum (Finite 0))) = Inr ct"
  shows "\<exists>p'. render_scores h result p = (p', None) \<and>
     score_elements p' =
       (\<lparr>textContent = nullish_or q score_placeholder, className = str ''score-value '' @ cq\<rparr>,
        \<lparr>textContent = nullish_or s score_placeholder, className = str ''score-value '' @ cs\<rparr>,
        \<lparr>textContent = nullish_or g score_placeholder, className = str ''score-value '' @ cg\<rparr>,
        \<lparr>textContent = nullish_or t score_placeholder, className = str ''score-value '' @ ct\<rparr>)"
  using assms
  by (simp add: render_scores_def render_overall_def render_breakdown_def render_score_def
      schedule_score_bar_def reading_def and_then_def writing_def score_elements_def
      node_reset Let_def split: option.splits)

lemma render_result_elements:
  assumes "normalized h data = Inr result"
    "get_prop h result (str ''overall_score'') = Inr ov"
    "getScoreClass h (nullish_or ov (JNum (Finite 0))) = Inr co"
    "get_prop h result (str ''scores_breakdown'') = Inr sb"
    "get_prop h (js_or sb (JObj [])) (str ''quality_score'') = Inr q"
    "getScoreClass h (nullish_or q (JNum (Finite 0))) = Inr cq"
    "get_prop h (js_or sb (JObj [])) (str ''seo_score'') = Inr s"
    "getScoreClass h (nullish_or s (JNum (Finite 0))) = Inr cs"
    "get_prop h (js_or sb (JObj [])) (str ''engagement_score'') = Inr g"
    "getScoreClass h (nullish_or g (JNum (Finite 0))) = Inr cg"
    "get_prop h (js_or sb (JObj [])) (str ''structure_score'') = Inr t"
    "getScoreClass h (nullish_or t (JNum (Finite 0))) = Inr ct"
  shows "score_elements (fst (render_result h data p)) =
       (\<lparr>textContent = nullish_or q score_placeholder, className = str ''score-value '' @ cq\<rparr>,
        \<lparr>textContent = nullish_or s score_placeholder, className = str ''score-value '' @ cs\<rparr>,
        \<lparr>textContent = nullish_or g score_placeholder, className = str ''score-value '' @ cg\<rparr>,
        \<lparr>textContent = nullish_or t score_placeholder, className = str ''score-value '' @ ct\<rparr>)"
proof -
  let ?p1 = "p\<lparr>resultEmpty_hidden := True, resultContent_hidden := False\<rparr>"
  from render_scores_elements [OF assms(2-12), of ?p1]
  obtain p2 where r: "render_scores h result ?p1 = (p2, None)"
    and s: "score_elements p2 =
       (\<lparr>textContent = nullish_or q score_placeholder, className = str ''score-value '' @ cq\<rparr>,
        \<lparr>textContent = nullish_or s score_placeholder, className = str ''score-value '' @ cs\<rparr>,
        \<lparr>textContent = nullish_or g score_placeholder, className = str ''score-value '' @ cg\<rparr>,
        \<lparr>textContent = nullish_or t score_placeholder, className = str ''score-value '' @ ct\<rparr>)"
    by blast
  have "render_from h result p =
      (and_then (render_issues h result)
      (and_then (render_checks h result)
      (and_then (render_hashtags h result)
      (and_then (render_optimized h result) (render_ctas h result))))) p2"
    using r by (simp only: render_from_def and_then_writing and_then_done)
  moreover have "render_result h data p = render_from h result p"
    using assms(1) by (simp add: render_result_def reading_def)
  ultimately show ?thesis using render_rest_frame [of h result p2] s by simp
qed

lemma classify_number: "to_number h v = Inr n \<Longrightarrow> \<exists>c. getScoreClass h v = Inr c"
  by (cases n) (simp_all add: getScoreClass_def js_ge_def split: bool.splits)

lemma classify_primitive:
  assumes "\<forall>xs. v \<noteq> JArr xs" "\<forall>kvs. v \<noteq> JObj kvs" "\<forall>b. v \<noteq> JBuiltin b"
  shows "\<exists>c. getScoreClass h v = Inr c"
proof -
  from assms have "\<exists>n. to_number h v = Inr n" by (cases v) simp_all
  then show ?thesis using classify_number by blast
qed

text \<open>
  Claim C7, as stated, fails: for the payload \<^verbatim>\<open>{}\<close>, where no quality score is given, the
  quality element is rendered with the text of the placeholder and with the class
  \<^verbatim>\<open>score-value poor\<close>, which is the band of the score \<^verbatim>\<open>0\<close> and the class the payload
  \<^verbatim>\<open>{scores_breakdown:{quality_score:0}}\<close> gets: an absent value is rendered with a band.
\<close>

theorem absent_score_band_counterexample:
  "scoreQualityEl (fst (render_result simple_host (JObj []) blank_page)) =
     \<lparr>textContent = JStr [8211], className = str ''score-value poor''\<rparr> \<and>
   getScoreClass simple_host (JNum (Finite 0)) = Inr (str ''poor'') \<and>
   className (scoreQualityEl (fst (render_result simple_host (JObj []) blank_page))) =
     className (scoreQualityEl (fst (render_result simple_host
       (JObj [(str ''scores_breakdown'', JObj [(str ''quality_score'', JNum (Finite 0))])])
       blank_page)))"
proof -
  let ?z = "JObj [(str ''scores_breakdown'', JObj [(str ''quality_score'', JNum (Finite 0))])]"
  have 1: "score_elements (fst (render_result simple_host (JObj []) blank_page)) =
       (\<lparr>textContent = nullish_or JUndefined score_placeholder,
         className = str ''score-value '' @ str ''poor''\<rparr>,
        \<lparr>textContent = nullish_or JUndefined score_placeholder,
         className = str ''score-value '' @ str ''poor''\<rparr>,
        \<lparr>textContent = nullish_or JUndefined score_placeholder,
         className = str ''score-value '' @ str ''poor''\<rparr>,
        \<lparr>textContent = nullish_or JUndefined score_placeholder,
         className = str ''score-value '' @ str ''poor''\<rparr>)"
    by (rule render_result_elements [where result = "JObj []" and ov = JUndefined
          and sb = JUndefined and co = "str ''poor''"])
       (simp_all add: normalized_def get_prop_def simple_host_fields js_or_def nullish_or_def
          getScoreClass_zero)
  have 2: "score_elements (fst (render_result simple_host ?z blank_page)) =
       (\<lparr>textContent = nullish_or (JNum (Finite 0)) score_placeholder,
         className = str ''score-value '' @ str ''poor''\<rparr>,
        \<lparr>textContent = nullish_or JUndefined score_placeholder,
         className = str ''score-value '' @ str ''poor''\<rparr>,
        \<lparr>textContent = nullish_or JUndefined score_placeholder,
         className = str ''score-value '' @ str ''poor''\<rparr>,
        \<lparr>textContent = nullish_or JUndefined score_placeholder,
         className = str ''score-value '' @ str ''poor''\<rparr>)"
    by (rule render_result_elements [where result = ?z and ov = JUndefined
          and sb = "JObj [(str ''quality_score'', JNum (Finite 0))]" and co = "str ''poor''"])
       (simp_all add: normalized_def get_prop_def simple_host_fields js_or_def nullish_or_def
          getScoreClass_zero)
  from 1 have q1: "scoreQualityEl (fst (render_result simple_host (JObj []) blank_page)) =
     \<lparr>textContent = JStr [8211], className = str ''score-value poor''\<rparr>"
    by (simp add: score_elements_def nullish_or_def score_placeholder_def)
  from 2 have q2: "scoreQualityEl (fst (render_result simple_host ?z blank_page)) =
     \<lparr>textContent = JNum (Finite 0), className = str ''score-value poor''\<rparr>"
    by (simp add: score_elements_def nullish_or_def score_placeholder_def)
  show ?thesis unfolding q1 q2 by (simp add: getScoreClass_zero)
qed

text \<open>
  Claim C7, amended. When the reads of the overall score, of the breakdown and of its four
  fields throw nothing and the classifier throws on none of the values, each of the four
  per-category elements is rendered from the value of its field in the breakdown alone:
  the text is the value, or the placeholder when the value is \<^verbatim>\<open>undefined\<close> or \<^verbatim>\<open>null\<close>; the
  class is that of the band of the value, or of the band of \<^verbatim>\<open>0\<close>, \<^verbatim>\<open>score-value poor\<close>,
  when the value is \<^verbatim>\<open>undefined\<close> or \<^verbatim>\<open>null\<close>. A score of \<^verbatim>\<open>0\<close> and a missing score
  differ in the text, not in the class. The classifier throws on no value that is
  \<^verbatim>\<open>undefined\<close>, \<^verbatim>\<open>null\<close>, a boolean, a number or a string.
\<close>

theorem breakdown_score_rendering:
  "(normalized h data = Inr result \<and>
    get_prop h result (str ''overall_score'') = Inr ov \<and>
    getScoreClass h (nullish_or ov (JNum (Finite 0))) = Inr co \<and>
    get_prop h result (str ''scores_breakdown'') = Inr sb \<and>
    get_prop h (js_or sb (JObj [])) (str ''quality_score'') = Inr q \<and>
    getScoreClass h (nullish_or q (JNum (Finite 0))) = Inr cq \<and>
    get_prop h (js_or sb (JObj [])) (str ''seo_score'') = Inr s \<and>
    getScoreClass h (nullish_or s (JNum (Finite 0))) = Inr cs \<and>
    get_prop h (js_or sb (JObj [])) (str ''engagement_score'') = Inr g \<and>
    getScoreClass h (nullish_or g (JNum (Finite 0))) = Inr cg \<and>
    get_prop h (js_or sb (JObj [])) (str ''structure_score'') = Inr t \<and>
    getScoreClass h (nullish_or t (JNum (Finite 0))) = Inr ct \<longrightarrow>
      scoreQualityEl (fst (render_result h data p)) =
        \<lparr>textContent = nullish_or q score_placeholder, className = str ''score-value '' @ cq\<rparr> \<and>
      scoreSeoEl (fst (render_result h data p)) =
        \<lparr>textContent = nullish_or s score_placeholder, className = str ''score-value '' @ cs\<rparr> \<and>
      scoreEngagementEl (fst (render_result h data p)) =
        \<lparr>textContent = nullish_or g score_placeholder, className = str ''score-value '' @ cg\<rparr> \<and>
      scoreStructureEl (fst (render_result h data p)) =
        \<lparr>textContent = nullish_or t score_placeholder, className = str ''score-value '' @ ct\<rparr>) \<and>
   (nullish v \<longrightarrow>
      nullish_or v score_placeholder = JStr [8211] \<and>
      getScoreClass h (nullish_or v (JNum (Finite 0))) = Inr (str ''poor'')) \<and>
   (\<not> nullish v \<longrightarrow>
      nullish_or v score_placeholder = v \<and> nullish_or v (JNum (Finite 0)) = v) \<and>
   ((\<forall>xs. v \<noteq> JArr xs) \<and> (\<forall>kvs. v \<noteq> JObj kvs) \<and> (\<forall>b. v \<noteq> JBuiltin b) \<longrightarrow>
      (\<exists>c. getScoreClass h v = Inr c)) \<and>
   getScoreClass h (JNum (Finite 0)) = Inr (str ''poor'')"
proof (intro conjI impI)
  assume a: "normalized h data = Inr result \<and>
    get_prop h result (str ''overall_score'') = Inr ov \<and>
    getScoreClass h (nullish_or ov (JNum (Finite 0))) = Inr co \<and>
    get_prop h result (str ''scores_breakdown'') = Inr sb \<and>
    get_prop h (js_or sb (JObj [])) (str ''quality_score'') = Inr q \<and>
    getScoreClass h (nullish_or q (JNum (Finite 0))) = Inr cq \<and>
    get_prop h (js_or sb (JObj [])) (str ''seo_score'') = Inr s \<and>
    getScoreClass h (nullish_or s (JNum (Finite 0))) = Inr cs \<and>
    get_prop h (js_or sb (JObj [])) (str ''engagement_score'') = Inr g \<and>
    getScoreClass h (nullish_or g (JNum (Finite 0))) = Inr cg \<and>
    get_prop h (js_or sb (JObj [])) (str ''structure_score'') = Inr t \<and>
    getScoreClass h (nullish_or t (JNum (Finite 0))) = Inr ct"
  have e: "score_elements (fst (render_result h data p)) =
       (\<lparr>textContent = nullish_or q score_placeholder, className = str ''score-value '' @ cq\<rparr>,
        \<lparr>textContent = nullish_or s score_placeholder, className = str ''score-value '' @ cs\<rparr>,
        \<lparr>textContent = nullish_or g score_placeholder, className = str ''score-value '' @ cg\<rparr>,
        \<lparr>textContent = nullish_or t score_placeholder, className = str ''score-value '' @ ct\<rparr>)"
    by (rule render_result_elements) (use a in blast)+
  from e show "scoreQualityEl (fst (render_result h data p)) =
        \<lparr>textContent = nullish_or q score_placeholder, className = str ''score-value '' @ cq\<rparr>"
    by (simp add: score_elements_def)
  from e show "scoreSeoEl (fst (render_result h data p)) =
        \<lparr>textContent = nullish_or s score_placeholder, className = str ''score-value '' @ cs\<rparr>"
    by (simp add: score_elements_def)
  from e show "scoreEngagementEl (fst (render_result h data p)) =
        \<lparr>textContent = nullish_or g score_placeholder, className = str ''score-value '' @ cg\<rparr>"
    by (simp add: score_elements_def)
  from e show "scoreStructureEl (fst (render_result h data p)) =
        \<lparr>textContent = nullish_or t score_placeholder, className = str ''score-value '' @ ct\<rparr>"
    by (simp add: score_elements_def)
next
  assume "nullish v"
  then show "nullish_or v score_placeholder = JStr [8211]"
    "getScoreClass h (nullish_or v (JNum (Finite 0))) = Inr (str ''poor'')"
    by (simp_all add: nullish_or_def score_placeholder_def getScoreClass_zero)
next
  assume "\<not> nullish v"
  then show "nullish_or v score_placeholder = v" "nullish_or v (JNum (Finite 0)) = v"
    by (simp_all add: nullish_or_def)
next
  assume "(\<forall>xs. v \<noteq> JArr xs) \<and> (\<forall>kvs. v \<noteq> JObj kvs) \<and> (\<forall>b. v \<noteq> JBuiltin b)"
  then show "\<exists>c. getScoreClass h v = Inr c" using classify_primitive by blast
next
  show "getScoreClass h (JNum (Finite 0)) = Inr (str ''poor'')" by (rule getScoreClass_zero)
qed

theorem breakdown_score_rendering_witness:
  "normalized simple_host
     (JObj [(str ''overall_score'', JNum (Finite 82)),
            (str ''scores_breakdown'', JObj [(str ''quality_score'', JNum (Finite 90))])]) =
     Inr (JObj [(str ''overall_score'', JNum (Finite 82)),
                (str ''scores_breakdown'', JObj [(str ''quality_score'', JNum (Finite 90))])]) \<and>
   get_prop simple_host (JObj [(str ''quality_score'', JNum (Finite 90))]) (str ''quality_score'') =
     Inr (JNum (Finite 90)) \<and>
   getScoreClass simple_host (JNum (Finite 90)) = Inr (str ''excellent'') \<and>
   get_prop simple_host (JObj [(str ''quality_score'', JNum (Finite 90))]) (str ''seo_score'') =
     Inr JUndefined \<and>
   nullish JUndefined \<and> \<not> nullish (JNum (Finite 90)) \<and>
   scoreQualityEl (fst (render_result simple_host
     (JObj [(str ''overall_score'', JNum (Finite 82)),
            (str ''scores_breakdown'', JObj [(str ''quality_score'', JNum (Finite 90))])])
     blank_page)) =
     \<lparr>textContent = JNum (Finite 90), className = str ''score-value excellent''\<rparr> \<and>
   scoreSeoEl (fst (render_result simple_host
     (JObj [(str ''overall_score'', JNum (Finite 82)),
            (str ''scores_breakdown'', JObj [(str ''quality_score'', JNum (Finite 90))])])
     blank_page)) = \<lparr>textContent = JStr [8211], className = str ''score-value poor''\<rparr>"
proof -
  let ?b = "JObj [(str ''quality_score'', JNum (Finite 90))]"
  let ?d = "JObj [(str ''overall_score'', JNum (Finite 82)), (str ''scores_breakdown'', ?b)]"
  have n: "normalized simple_host ?d = Inr ?d"
    by (simp add: normalized_def get_prop_def js_or_def simple_host_fields)
  have o: "get_prop simple_host ?d (str ''overall_score'') = Inr (JNum (Finite 82))"
    "get_prop simple_host ?d (str ''scores_breakdown'') = Inr ?b"
    by (simp_all add: get_prop_def)
  have j: "js_or ?b (JObj []) = ?b" by (simp add: js_or_def)
  have g: "get_prop simple_host ?b (str ''quality_score'') = Inr (JNum (Finite 90))"
    "get_prop simple_host ?b (str ''seo_score'') = Inr JUndefined"
    "get_prop simple_host ?b (str ''engagement_score'') = Inr JUndefined"
    "get_prop simple_host ?b (str ''structure_score'') = Inr JUndefined"
    by (simp_all add: get_prop_def simple_host_fields)
  have c: "getScoreClass simple_host (nullish_or (JNum (Finite 82)) (JNum (Finite 0))) =
      Inr (str ''good'')"
    "getScoreClass simple_host (nullish_or (JNum (Finite 90)) (JNum (Finite 0))) =
      Inr (str ''excellent'')"
    "getScoreClass simple_host (nullish_or JUndefined (JNum (Finite 0))) = Inr (str ''poor'')"
    "getScoreClass simple_host (JNum (Finite 90)) = Inr (str ''excellent'')"
    by (simp_all add: nullish_or_def getScoreClass_def js_ge_def)
  note k = breakdown_score_rendering [where h = simple_host and data = ?d and result = ?d
      and ov = "JNum (Finite 82)" and co = "str ''good''" and sb = ?b
      and q = "JNum (Finite 90)" and cq = "str ''excellent''"
      and s = JUndefined and cs = "str ''poor''" and g = JUndefined and cg = "str ''poor''"
      and t = JUndefined and ct = "str ''poor''" and p = blank_page and v = JUndefined]
  have a: "normalized simple_host ?d = Inr ?d \<and>
    get_prop simple_host ?d (str ''overall_score'') = Inr (JNum (Finite 82)) \<and>
    getScoreClass simple_host (nullish_or (JNum (Finite 82)) (JNum (Finite 0))) =
      Inr (str ''good'') \<and>
    get_prop simple_host ?d (str ''scores_breakdown'') = Inr ?b \<and>
    get_prop simple_host (js_or ?b (JObj [])) (str ''quality_score'') = Inr (JNum (Finite 90)) \<and>
    getScoreClass simple_host (nullish_or (JNum (Finite 90)) (JNum (Finite 0))) =
      Inr (str ''excellent'') \<and>
    get_prop simple_host (js_or ?b (JObj [])) (str ''seo_score'') = Inr JUndefined \<and>
    getScoreClass simple_host (nullish_or JUndefined (JNum (Finite 0))) = Inr (str ''poor'') \<and>
    get_prop simple_host (js_or ?b (JObj [])) (str ''engagement_score'') = Inr JUndefined \<and>
    getScoreClass simple_host (nullish_or JUndefined (JNum (Finite 0))) = Inr (str ''poor'') \<and>
    get_prop simple_host (js_or ?b (JObj [])) (str ''structure_score'') = Inr JUndefined \<and>
    getScoreClass simple_host (nullish_or JUndefined (JNum (Finite 0))) = Inr (str ''poor'')"
    unfolding j by (intro conjI) (fact n o g c)+
  note r = k [THEN conjunct1, THEN mp, OF a]
  from r have q: "scoreQualityEl (fst (render_result simple_host ?d blank_page)) =
     \<lparr>textContent = JNum (Finite 90), className = str ''score-value excellent''\<rparr>"
    by (simp add: nullish_or_def)
  from r have s: "scoreSeoEl (fst (render_result simple_host ?d blank_page)) =
     \<lparr>textContent = JStr [8211], className = str ''score-value poor''\<rparr>"
    by (simp add: nullish_or_def score_placeholder_def)
  have z: "nullish JUndefined" "\<not> nullish (JNum (Finite 90))" by simp_all
  show ?thesis
    by (intro conjI) (fact n g c z q s)+
qed

section \<open>Building the request\<close>

lemma dropWhile_last: "dropWhile P xs \<noteq> [] \<Longrightarrow> last (dropWhile P xs) = last xs"
  by (induction xs) (auto split: if_splits)

lemma trim_ends:
  assumes "trim s \<noteq> []"
  shows "\<not> is_space (hd (trim s))" "\<not> is_space (last (trim s))"
proof -
  let ?d = "dropWhile is_space s"
  let ?r = "dropWhile is_space (rev ?d)"
  from assms have r: "?r \<noteq> []" by (simp add: trim_def)
  have d: "?d \<noteq> []"
  proof
    assume "?d = []"
    then have "?r = []" by (simp only: rev.simps dropWhile.simps)
    with r show False by blast
  qed
  have "last (trim s) = hd ?r" using r by (simp add: trim_def last_rev)
  moreover have "\<not> is_space (hd ?r)" using r by (rule hd_dropWhile)
  ultimately show "\<not> is_space (last (trim s))" by simp
  have "hd (trim s) = last ?r" using r by (simp add: trim_def hd_rev)
  also have "\<dots> = last (rev ?d)" using r by (rule dropWhile_last)
  also have "\<dots> = hd ?d" using d by (simp add: last_rev)
  finally have "hd (trim s) = hd ?d" .
  moreover have "\<not> is_space (hd ?d)" using d by (rule hd_dropWhile)
  ultimately show "\<not> is_space (hd (trim s))" by simp
qed

lemma trim_fixed:
  assumes "s = [] \<or> (\<not> is_space (hd s) \<and> \<not> is_space (last s))"
  shows "trim s = s"
proof (cases "s = []")
  case True
  then show ?thesis by (simp add: trim_def)
next
  case False
  with assms have h: "\<not> is_space (hd s)" and l: "\<not> is_space (last s)" by auto
  from False h have 1: "dropWhile is_space s = s" by (cases s) auto
  from False l have "\<not> is_space (hd (rev s))" by (simp add: hd_rev)
  with False have 2: "dropWhile is_space (rev s) = rev s" by (cases "rev s") auto
  show ?thesis by (simp add: trim_def 1 2)
qed

lemma trim_trim: "trim (trim s) = trim s"
  using trim_ends [of s] by (intro trim_fixed) blast

lemma split_hashtags_eq:
  "split_hashtags raw = filter (\<lambda>s. s \<noteq> []) (map trim (split_on 44 raw))"
  by (cases raw) (simp_all add: split_hashtags_def trim_def)

lemma split_on_no_sep: "w \<in> set (split_on sep s) \<Longrightarrow> sep \<notin> set w"
  by (induction s arbitrary: w) (auto split: if_splits list.splits)

lemma join_Cons_Cons: "join sep ((u # w) # ws) = u # join sep (w # ws)"
  by (cases ws) simp_all

lemma split_on_join: "join [sep] (split_on sep s) = s"
proof (induction s)
  case Nil
  show ?case by simp
next
  case (Cons u us)
  then show ?case
    by (cases "split_on sep us") (auto simp: join_Cons_Cons split: list.splits)
qed

lemma split_hashtags_elem:
  assumes "t \<in> set (split_hashtags raw)"
  shows "t \<noteq> [] \<and> trim t = t"
proof -
  from assms obtain w where "t = trim w" "t \<noteq> []"
    by (auto simp: split_hashtags_eq)
  then show ?thesis by (simp add: trim_trim)
qed

lemma stringify_strings:
  "all_results (map (stringify h \<circ> JStr) hs) = Inr (map (\<lambda>s. Some (quote_json s)) hs)"
  by (induction hs) simp_all

lemma stringify_object:
  "stringify h (JObj kvs) =
     (case all_results (map (\<lambda>kv. stringify h (snd kv)) kvs) of
        Inl e \<Rightarrow> Inl e
      | Inr rs \<Rightarrow>
          Inr (Some (str ''{'' @
                     join (str '','') (concat (map2 property_text (map fst kvs) rs)) @
                     str ''}'')))"
  by simp

lemma stringify_payload:
  "\<exists>text. JSON_stringify h (build_payload a b c hs d e g) = Inr (JStr text)"
proof -
  have 1: "\<exists>r. stringify h (js_or (JStr s) JNull) = Inr r" for s
    by (simp add: js_or_def)
  have 2: "\<exists>r. stringify h (JStr s) = Inr r" for s
    by simp
  have "\<exists>r. stringify h (JArr (map JStr hs)) = Inr r"
    by (simp add: stringify_strings)
  then obtain rh where rh: "stringify h (JArr (map JStr hs)) = Inr rh" by blast
  from 2 obtain ra where ra: "stringify h (JStr a) = Inr ra" by blast
  from 1 obtain rb where rb: "stringify h (js_or (JStr b) JNull) = Inr rb" by blast
  from 2 obtain rc where rc: "stringify h (JStr c) = Inr rc" by blast
  from 1 obtain rd where rd: "stringify h (js_or (JStr d) JNull) = Inr rd" by blast
  from 1 obtain re where re: "stringify h (js_or (JStr e) JNull) = Inr re" by blast
  from 1 obtain rg where rg: "stringify h (js_or (JStr g) JNull) = Inr rg" by blast
  show ?thesis
    unfolding JSON_stringify_def build_payload_def
    by (simp add: stringify_object rh ra rb rc rd re rg del: stringify.simps)
qed

text \<open>
  Claim C8, as stated, fails: the hashtags are not deduplicated. The field \<^verbatim>\<open>#a,#a\<close> gives
  the sequence \<^verbatim>\<open>["#a", "#a"]\<close>.
\<close>

theorem split_hashtags_duplicates_counterexample:
  "split_hashtags (str ''#a,#a'') = [str ''#a'', str ''#a''] \<and>
   \<not> distinct (split_hashtags (str ''#a,#a''))"
  by (simp add: split_hashtags_def trim_def is_space_def)

text \<open>
  Claim C8, amended. On submission the trimmed hashtag field is cut at its commas, each
  piece is trimmed and the empty pieces are dropped; the pieces stay in the order of the
  field and a piece that occurs twice is kept twice. Every element of the sequence is
  trimmed and non-empty. The sequence is the \<^verbatim>\<open>hashtags\<close> array of the payload, whose JSON
  text always exists and is the body of the one request sent. The field
  \<^verbatim>\<open>#SNS Square, #random\<close> gives exactly \<^verbatim>\<open>["#SNS Square", "#random"]\<close>.
\<close>

theorem split_hashtags_sequence:
  "(t \<in> set (split_hashtags raw) \<longrightarrow> t \<noteq> [] \<and> trim t = t) \<and>
   split_hashtags raw = filter (\<lambda>s. s \<noteq> []) (map trim (split_on 44 raw)) \<and>
   join [44] (split_on 44 raw) = raw \<and>
   (w \<in> set (split_on 44 raw) \<longrightarrow> 44 \<notin> set w) \<and>
   (trim (content_value f) \<noteq> [] \<longrightarrow>
      (\<exists>text.
         JSON_stringify h
           (build_payload (platform_value f) (trim (title_value f)) (trim (content_value f))
              (split_hashtags (trim (hashtags_value f)))
              (trim (geo_value f)) (trim (niche_value f)) (trim (target_audience_value f))) =
           Inr (JStr text) \<and>
         map body (snd (submit h hostname fetch f p)) = [JStr text])) \<and>
   get_prop h (build_payload a b c hashtags d e g) (str ''hashtags'') =
     Inr (JArr (map JStr hashtags)) \<and>
   split_hashtags (trim (str ''#SNS Square, #random'')) = [str ''#SNS Square'', str ''#random'']"
proof (intro conjI impI)
  assume "t \<in> set (split_hashtags raw)"
  then show "t \<noteq> []" "trim t = t" using split_hashtags_elem by blast+
next
  show "split_hashtags raw = filter (\<lambda>s. s \<noteq> []) (map trim (split_on 44 raw))"
    by (rule split_hashtags_eq)
next
  show "join [44] (split_on 44 raw) = raw" by (rule split_on_join)
next
  assume "w \<in> set (split_on 44 raw)"
  then show "44 \<notin> set w" by (rule split_on_no_sep)
next
  let ?payload = "build_payload (platform_value f) (trim (title_value f)) (trim (content_value f))
              (split_hashtags (trim (hashtags_value f)))
              (trim (geo_value f)) (trim (niche_value f)) (trim (target_audience_value f))"
  assume c: "trim (content_value f) \<noteq> []"
  obtain json where t: "JSON_stringify h ?payload = Inr (JStr json)"
    using stringify_payload by blast
  with c have "map body (snd (submit h hostname fetch f p)) = [JStr json]"
    by (simp add: submit_def Let_def)
  then show "\<exists>text. JSON_stringify h ?payload = Inr (JStr text) \<and>
         map body (snd (submit h hostname fetch f p)) = [JStr text]"
    using t by (intro exI [of _ json] conjI)
next
  show "get_prop h (build_payload a b c hashtags d e g) (str ''hashtags'') =
      Inr (JArr (map JStr hashtags))"
    by (simp add: build_payload_def get_prop_def)
next
  show "split_hashtags (trim (str ''#SNS Square, #random'')) =
      [str ''#SNS Square'', str ''#random'']"
    by (simp add: split_hashtags_def trim_def is_space_def)
qed

theorem split_hashtags_sequence_witness:
  \<open>str ''#random'' \<in> set (split_hashtags (str ''#SNS Square, #random'')) \<and>
   str ''#random'' \<noteq> [] \<and> trim (str ''#random'') = str ''#random'' \<and>
   str '' #random'' \<in> set (split_on 44 (str ''#SNS Square, #random'')) \<and>
   44 \<notin> set (str '' #random'') \<and>
   trim (content_value (blank_form\<lparr>content_value := str ''Great post!'',
                                    hashtags_value := str ''#SNS Square, #random''\<rparr>)) \<noteq> [] \<and>
   map body (snd (submit simple_host (str ''localhost'') (\<lambda>r. Rejected [])
     (blank_form\<lparr>content_value := str ''Great post!'',
                  hashtags_value := str ''#SNS Square, #random''\<rparr>) blank_page)) =
     [JStr (str ''{"platform":"instagram","title":null,"content":"Great post!","hashtags":["#SNS Square","#random"],"geo":null,"niche":null,"target_audience":null}'')]\<close>
proof -
  let ?f = "blank_form\<lparr>content_value := str ''Great post!'',
                        hashtags_value := str ''#SNS Square, #random''\<rparr>"
  have s: "split_hashtags (str ''#SNS Square, #random'') = [str ''#SNS Square'', str ''#random'']"
    by (simp add: split_hashtags_def trim_def is_space_def)
  have t: "trim (content_value ?f) = str ''Great post!''"
    by (simp add: trim_def is_space_def)
  have h: "trim (hashtags_value ?f) = str ''#SNS Square, #random''"
    by (simp add: trim_def is_space_def)
  have e: "trim [] = []" by (simp add: trim_def)
  have j: \<open>JSON_stringify simple_host
      (build_payload (str ''instagram'') [] (str ''Great post!'')
         [str ''#SNS Square'', str ''#random''] [] [] []) =
     Inr (JStr (str ''{"platform":"instagram","title":null,"content":"Great post!","hashtags":["#SNS Square","#random"],"geo":null,"niche":null,"target_audience":null}''))\<close>
    by (simp add: JSON_stringify_def build_payload_def js_or_def quote_json_def escape_unit_def
        element_text_def property_text_def is_leading_surrogate_def is_trailing_surrogate_def)
  have m: "str ''#random'' \<in> set (split_hashtags (str ''#SNS Square, #random''))"
    unfolding s by simp
  have w: "str '' #random'' \<in> set (split_on 44 (str ''#SNS Square, #random''))"
    by simp
  have c: "trim (content_value ?f) \<noteq> []" unfolding t by simp
  note k = split_hashtags_sequence [of "str ''#random''" "str ''#SNS Square, #random''"
      "str '' #random''" ?f simple_host "str ''localhost''" "\<lambda>r. Rejected []" blank_page]
  from k [THEN conjunct1, THEN mp, OF m]
  have 1: "str ''#random'' \<noteq> []" and 2: "trim (str ''#random'') = str ''#random''"
    by blast+
  from k [THEN conjunct2, THEN conjunct2, THEN conjunct2, THEN conjunct1, THEN mp, OF w]
  have 3: "44 \<notin> set (str '' #random'')" .
  have 5: "platform_value ?f = str ''instagram''" "trim (title_value ?f) = []"
    "trim (geo_value ?f) = []" "trim (niche_value ?f) = []" "trim (target_audience_value ?f) = []"
    by (simp_all add: blank_form_def e)
  note x = k [THEN conjunct2, THEN conjunct2, THEN conjunct2, THEN conjunct2, THEN conjunct1,
          THEN mp, OF c]
  have 6: \<open>map body (snd (submit simple_host (str ''localhost'') (\<lambda>r. Rejected []) ?f
              blank_page)) =
     [JStr (str ''{"platform":"instagram","title":null,"content":"Great post!","hashtags":["#SNS Square","#random"],"geo":null,"niche":null,"target_audience":null}'')]\<close>
    using x unfolding 5 t h s j by simp
  show ?thesis by (intro conjI) (fact m 1 2 w 3 c 6)+
qed

section \<open>Validation of the content\<close>

text \<open>
  Claim C9. When the content is empty after trimming, the handler writes the message
  \<^verbatim>\<open>Please paste some content to analyze.\<close> into the error box, shows the box and stops:
  nothing else on the page changes and no request is sent, whatever the transport.
\<close>

theorem submit_empty_content:
  "trim (content_value f) = [] \<Longrightarrow>
   submit h hostname fetch f p =
     (p\<lparr>errorBox_hidden := False,
        errorBox_text := JStr (str ''Please paste some content to analyze.'')\<rparr>, [])"
  by (simp add: submit_def Let_def)

theorem submit_empty_content_witness:
  "trim (content_value (blank_form\<lparr>content_value := str ''  ''\<rparr>)) = [] \<and>
   submit simple_host (str ''localhost'') (\<lambda>r. Rejected [])
     (blank_form\<lparr>content_value := str ''  ''\<rparr>) blank_page =
     (blank_page\<lparr>errorBox_hidden := False,
        errorBox_text := JStr (str ''Please paste some content to analyze.'')\<rparr>, [])"
proof -
  have t: "trim (content_value (blank_form\<lparr>content_value := str ''  ''\<rparr>)) = []"
    by (simp add: trim_def is_space_def)
  show ?thesis using t submit_empty_content [OF t] by simp
qed

end
